theory Spec2Isabelle
  imports Complex_Main "HOL-Library.Sublist"
begin

chapter \<open>The program\<close>

section \<open>Vectors and boxes\<close>

text \<open>
  The game stores every position in a three.js \<open>Vector3\<close> and every collision volume in
  a three.js \<open>Box3\<close>. Coordinates are JavaScript numbers; they are modelled as reals.
  The functions of this section are those of the three.js library that
  \<open>src/src/main.js\<close> calls: \<open>add\<close>, \<open>distanceTo\<close>, \<open>applyAxisAngle\<close> about the
  vertical axis, \<open>setFromCenterAndSize\<close>, \<open>translate\<close> and \<open>intersectsBox\<close>.
\<close>

record vec3 =
  vx :: real
  vy :: real
  vz :: real

definition vec :: "real \<Rightarrow> real \<Rightarrow> real \<Rightarrow> vec3" where
  "vec a b c = \<lparr>vx = a, vy = b, vz = c\<rparr>"

definition vadd :: "vec3 \<Rightarrow> vec3 \<Rightarrow> vec3" where
  "vadd a b = \<lparr>vx = vx a + vx b, vy = vy a + vy b, vz = vz a + vz b\<rparr>"

definition distanceToSquared :: "vec3 \<Rightarrow> vec3 \<Rightarrow> real" where
  "distanceToSquared a b =
     (vx a - vx b) * (vx a - vx b) + (vy a - vy b) * (vy a - vy b)
       + (vz a - vz b) * (vz a - vz b)"

definition distanceTo :: "vec3 \<Rightarrow> vec3 \<Rightarrow> real" where
  "distanceTo a b = sqrt (distanceToSquared a b)"

text \<open>\<open>v.applyAxisAngle(new Vector3(0, 1, 0), angle)\<close>: a rotation about the y axis.\<close>

definition applyAxisAngleY :: "vec3 \<Rightarrow> real \<Rightarrow> vec3" where
  "applyAxisAngleY v angle =
     \<lparr>vx = vx v * cos angle + vz v * sin angle,
      vy = vy v,
      vz = vz v * cos angle - vx v * sin angle\<rparr>"

record box3 =
  bmin :: vec3
  bmax :: vec3

definition setFromCenterAndSize :: "vec3 \<Rightarrow> vec3 \<Rightarrow> box3" where
  "setFromCenterAndSize center sz =
     \<lparr>bmin = \<lparr>vx = vx center - vx sz * 0.5, vy = vy center - vy sz * 0.5,
               vz = vz center - vz sz * 0.5\<rparr>,
      bmax = \<lparr>vx = vx center + vx sz * 0.5, vy = vy center + vy sz * 0.5,
               vz = vz center + vz sz * 0.5\<rparr>\<rparr>"

definition translate :: "box3 \<Rightarrow> vec3 \<Rightarrow> box3" where
  "translate b offset = \<lparr>bmin = vadd (bmin b) offset, bmax = vadd (bmax b) offset\<rparr>"

definition intersectsBox :: "box3 \<Rightarrow> box3 \<Rightarrow> bool" where
  "intersectsBox this other =
     (if vx (bmax other) < vx (bmin this) \<or> vx (bmin other) > vx (bmax this)
         \<or> vy (bmax other) < vy (bmin this) \<or> vy (bmin other) > vy (bmax this)
         \<or> vz (bmax other) < vz (bmin this) \<or> vz (bmin other) > vz (bmax this)
      then False else True)"

section \<open>The scene graph\<close>

text \<open>
  A world object is a three.js \<open>Object3D\<close>: a position relative to its parent, its
  children, and the ad-hoc properties the game attaches to it. Of those the simulation
  reads \<open>collider\<close> (a box in the owner's local frame), \<open>isStore\<close>, \<open>isBench\<close> and
  \<open>isDepartmentStore\<close>; a property that was never assigned is \<open>undefined\<close> in the
  source and reads as \<open>None\<close> or \<open>False\<close> here.
\<close>

datatype object3d = Object3D
  (position: vec3)
  (collider: "box3 option")
  (isStore: bool)
  (isBench: bool)
  (isDepartmentStore: bool)
  (children: "object3d list")

text \<open>\<open>scene.traverse(callback)\<close> visits an object and then all its descendants.\<close>

fun traverse :: "object3d \<Rightarrow> object3d list" where
  "traverse (Object3D p c s b d ch) = Object3D p c s b d ch # concat (map traverse ch)"

text \<open>
  The box a collision query uses for an object: a clone of its collider, translated by
  the object's own \<open>position\<close> field (\<open>updatePlayer\<close>, both loops).
\<close>

definition queryBox :: "object3d \<Rightarrow> box3 option" where
  "queryBox ob = (case collider ob of None \<Rightarrow> None
                  | Some c \<Rightarrow> Some (translate c (position ob)))"

section \<open>Player movement and collision\<close>

record keys =
  key_w :: bool
  key_a :: bool
  key_s :: bool
  key_d :: bool

record player =
  playerPosition :: vec3
  playerRotationY :: real

definition moveSpeed :: real where "moveSpeed = 0.25"

definition turnSpeed :: real where "turnSpeed = 0.045"

definition playerSize :: vec3 where "playerSize = vec 0.4 1.8 0.4"

definition maxDistance :: real where "maxDistance = 95"

text \<open>\<open>setupPlayer\<close> puts the player at Mr. Bean's house, unrotated.\<close>

definition setupPlayer :: player where
  "setupPlayer = \<lparr>playerPosition = vec (-38) 0 (-28), playerRotationY = 0\<rparr>"

text \<open>The first half of \<open>updatePlayer\<close>: turning, and the velocity the keys ask for.\<close>

definition turned :: "keys \<Rightarrow> player \<Rightarrow> real" where
  "turned ks pl =
     (let r1 = (if key_a ks then playerRotationY pl + turnSpeed else playerRotationY pl)
      in if key_d ks then r1 - turnSpeed else r1)"

definition playerVelocity :: "keys \<Rightarrow> player \<Rightarrow> vec3" where
  "playerVelocity ks pl =
     (let z1 = (if key_w ks then moveSpeed else 0);
          z2 = (if key_s ks then - moveSpeed else z1)
      in applyAxisAngleY (vec 0 0 z2) (turned ks pl))"

definition nextPosition :: "keys \<Rightarrow> player \<Rightarrow> vec3" where
  "nextPosition ks pl = vadd (playerPosition pl) (playerVelocity ks pl)"

definition playerBox :: "keys \<Rightarrow> player \<Rightarrow> box3" where
  "playerBox ks pl = setFromCenterAndSize (nextPosition ks pl) playerSize"

text \<open>
  The two collision loops: over \<open>this.stores\<close>, and over every object of the scene
  graph that has a collider and is not a store.
\<close>

definition hitsStore :: "box3 \<Rightarrow> object3d \<Rightarrow> bool" where
  "hitsStore pb store =
     (case queryBox store of None \<Rightarrow> False | Some sb \<Rightarrow> intersectsBox sb pb)"

definition hitsObject :: "box3 \<Rightarrow> object3d \<Rightarrow> bool" where
  "hitsObject pb ob =
     (case queryBox ob of None \<Rightarrow> False
      | Some ob_box \<Rightarrow> \<not> isStore ob \<and> intersectsBox ob_box pb)"

definition canMove :: "object3d list \<Rightarrow> object3d \<Rightarrow> box3 \<Rightarrow> bool" where
  "canMove stores scene pb =
     (\<not> list_ex (hitsStore pb) stores \<and> \<not> list_ex (hitsObject pb) (traverse scene))"

definition clamp :: "real \<Rightarrow> real" where
  "clamp c = max (- maxDistance) (min maxDistance c)"

definition updatePlayer :: "object3d list \<Rightarrow> object3d \<Rightarrow> keys \<Rightarrow> player \<Rightarrow> player" where
  "updatePlayer stores scene ks pl =
     (let pos1 = (if canMove stores scene (playerBox ks pl)
                  then nextPosition ks pl else playerPosition pl)
      in \<lparr>playerPosition = pos1\<lparr>vx := clamp (vx pos1), vz := clamp (vz pos1)\<rparr>,
          playerRotationY = turned ks pl\<rparr>)"

text \<open>The player after a run of frames, each with the keys held during it.\<close>

fun runPlayer :: "object3d list \<Rightarrow> object3d \<Rightarrow> keys list \<Rightarrow> player \<Rightarrow> player" where
  "runPlayer stores scene [] pl = pl"
| "runPlayer stores scene (ks # rest) pl =
     runPlayer stores scene rest (updatePlayer stores scene ks pl)"

section \<open>World construction\<close>

text \<open>
  The constructors of \<open>createCity\<close> and what they attach to the objects they return.
  Meshes, lights and decoration carry none of the properties the simulation reads, so
  they appear as plain objects; a child that is decoration only is left out of its
  group. \<open>position.set\<close> and \<open>position.copy\<close> on a finished group are \<open>setPosition\<close>.
\<close>

definition box :: "vec3 \<Rightarrow> vec3 \<Rightarrow> box3" where
  "box lo hi = \<lparr>bmin = lo, bmax = hi\<rparr>"

definition origin :: vec3 where
  "origin = vec 0 0 0"

definition plainAt :: "vec3 \<Rightarrow> object3d" where
  "plainAt p = Object3D p None False False False []"

fun setPosition :: "vec3 \<Rightarrow> object3d \<Rightarrow> object3d" where
  "setPosition p (Object3D q c s b d ch) = Object3D p c s b d ch"

definition createBritishHouse :: object3d where
  "createBritishHouse =
     Object3D origin (Some (box (vec (-3) 0 (-3)) (vec 3 8 3))) False False False []"

text \<open>Five houses in a row, eight units apart, in the frame of the street's group.\<close>

definition createArbourRoad :: object3d where
  "createArbourRoad =
     Object3D origin None False False False
       [setPosition (vec 0 0 0) createBritishHouse,
        setPosition (vec 8 0 0) createBritishHouse,
        setPosition (vec (-16) 0 0) createBritishHouse,
        setPosition (vec (-8) 0 0) createBritishHouse,
        setPosition (vec 16 0 0) createBritishHouse,
        plainAt (vec (-15) 2.5 5),
        plainAt (vec 0.5 2 3.1)]"

definition createDepartmentStore :: object3d where
  "createDepartmentStore = Object3D origin None False False True []"

definition createShopStreet :: object3d where
  "createShopStreet =
     Object3D (vec 20 0 20) None False False False
       [plainAt (vec (-12) 0 0), plainAt (vec (-4) 0 0), plainAt (vec 4 0 0),
        plainAt (vec 12 0 0)]"

definition createTree :: object3d where
  "createTree =
     Object3D origin (Some (box (vec (-0.4) 0 (-0.4)) (vec 0.4 3 0.4))) False False False []"

definition benchPositions :: "vec3 list" where
  "benchPositions =
     [vec (-15) 0 (-15), vec 15 0 (-15), vec (-15) 0 15, vec 15 0 15, vec 0 0 0,
      vec (-15) 0 0, vec 15 0 0, vec 0 0 (-15), vec 0 0 15]"

text \<open>
  \<open>createPark\<close> gives each bench a collider that already holds the bench's position,
  and translates each tree's collider by the tree's position when it places the tree.
  The fifteen tree positions come from \<open>Math.random()\<close>: \<open>rs\<close> holds the two draws of
  each tree.
\<close>

definition parkBench :: "vec3 \<Rightarrow> object3d" where
  "parkBench pos =
     Object3D pos
       (Some (box (vadd (vec (-1) 0 (-0.3)) pos) (vadd (vec 1 0.8 0.3) pos)))
       False False False []"

definition parkTree :: "real \<times> real \<Rightarrow> object3d" where
  "parkTree r =
     (let pos = vec ((fst r - 0.5) * 35) 0 ((snd r - 0.5) * 35)
      in case createTree of
           Object3D q c s b d ch \<Rightarrow>
             Object3D pos (map_option (\<lambda>cb. translate cb pos) c) s b d ch)"

definition createPark :: "(real \<times> real) list \<Rightarrow> object3d" where
  "createPark rs =
     Object3D origin None False False False
       (map parkBench benchPositions @ map parkTree rs
        @ [plainAt (vec 0 0 0), plainAt (vec (-10) 0 (-10)), plainAt (vec 10 0 (-10)),
           plainAt (vec (-10) 0 10), plainAt (vec 10 0 10)])"

definition createStore :: "vec3 \<Rightarrow> object3d" where
  "createStore pos =
     Object3D pos (Some (box (vec (-4) 0 (-4)) (vec 4 4 4))) True False False []"

definition cityStores :: "object3d list" where
  "cityStores =
     [createStore (vec 20 0 (-20)), createStore (vec (-20) 0 20), createStore (vec 20 0 20)]"

text \<open>
  The children of the scene: the districts and the car that \<open>createCity\<close> places, the
  three stores, and everything else that is added to the scene (lights, ground, lamps,
  phone boxes, bins, parked cars, clouds, birds, the characters), given by position.
\<close>

definition cityDistricts :: "(real \<times> real) list \<Rightarrow> object3d list" where
  "cityDistricts rs =
     [setPosition (vec (-40) 0 (-30)) createArbourRoad,
      setPosition (vec 30 0 (-30)) createDepartmentStore,
      setPosition (vec 30 0 0) createShopStreet,
      setPosition (vec 0 0 30) (createPark rs),
      plainAt (vec (-38) 0 (-28))]"

definition sceneChildren :: "(real \<times> real) list \<Rightarrow> vec3 list \<Rightarrow> object3d list" where
  "sceneChildren rs others = cityDistricts rs @ cityStores @ map plainAt others"

definition gameScene :: "(real \<times> real) list \<Rightarrow> vec3 list \<Rightarrow> object3d" where
  "gameScene rs others = Object3D origin None False False False (sceneChildren rs others)"

section \<open>Main characters: wandering inside a radius\<close>

text \<open>
  A main character is a group whose \<open>userData\<close> holds its name, its lines and its
  wander state. \<open>createMainNPC\<close> sets the speed to 0.01, the heading to a random angle,
  the anchor to the configured position and the radius to 5.
\<close>

record mainNPCConfig =
  cfgName :: string
  cfgPosition :: vec3
  cfgDialogs :: "string list"

record mainNPC =
  npcPosition :: vec3
  npcRotationY :: real
  characterName :: string
  characterDialogs :: "string list"
  walkSpeed :: real
  walkDirection :: real
  originalPosition :: vec3
  maxWanderDistance :: real


text \<open>\<open>Math.atan2(y, x)\<close>, the angle of the point (x, y), in the usual branches.\<close>

definition atan2 :: "real \<Rightarrow> real \<Rightarrow> real" where
  "atan2 y x =
     (if 0 < x then arctan (y / x)
      else if x < 0 then (if 0 \<le> y then arctan (y / x) + pi else arctan (y / x) - pi)
      else if 0 < y then pi / 2
      else if y < 0 then - (pi / 2)
      else 0)"












text \<open>The three configurations \<open>setupNPCs\<close> passes to \<open>createMainNPC\<close>.\<close>

definition wicketConfig :: mainNPCConfig where
  "wicketConfig =
     \<lparr>cfgName = ''Mrs. Wicket'', cfgPosition = vec (-42) 0 (-32),
      cfgDialogs =
        [''Mr. Bean! Your rent is due!'',
         ''Have you seen my Scrapper? That cat's always wandering off...'',
         ''Keep the noise down up there!'',
         ''I heard crashes from your flat again last night!'',
         ''Don't forget to clean the stairs this week, it's your turn!'']\<rparr>"

definition irmaConfig :: mainNPCConfig where
  "irmaConfig =
     \<lparr>cfgName = ''Irma Gobb'', cfgPosition = vec 25 0 (-25),
      cfgDialogs =
        [''Oh, Mr. Bean! I've been waiting for our date!'',
         ''I found this lovely new caf'' @ [CHR 0xE9] @ '' we could try...'',
         ''Have you remembered it's my birthday next week?'',
         ''I saw this beautiful teddy bear in the shop window...'',
         ''Shall we go to the park together?'']\<rparr>"

definition rupertConfig :: mainNPCConfig where
  "rupertConfig =
     \<lparr>cfgName = ''Rupert'', cfgPosition = vec (-34) 0 (-32),
      cfgDialogs =
        [''Keep that racket down, Bean!'',
         ''What are you up to now?'',
         ''Stay away from my garden!'',
         ''I saw you sneaking around last night!'',
         ''Not another one of your silly schemes!'']\<rparr>"

definition mainNPCConfigs :: "mainNPCConfig list" where
  "mainNPCConfigs = [wicketConfig, irmaConfig, rupertConfig]"

section \<open>Free-text dialogue\<close>

text \<open>
  Strings are lists of characters, one per UTF-16 code unit of the JavaScript string;
  the lines of the game use code units below 256 only. \<open>toLowerCase\<close> is
  \<open>String.prototype.toLowerCase\<close> on that range, and \<open>str_includes\<close> is
  \<open>String.prototype.includes\<close>: the keyword occurs as a contiguous part of the message.
\<close>

definition lowerChar :: "char \<Rightarrow> char" where
  "lowerChar c =
     (let n = (of_char c :: nat)
      in if (65 \<le> n \<and> n \<le> 90) \<or> (192 \<le> n \<and> n \<le> 222 \<and> n \<noteq> 215)
         then char_of (n + 32) else c)"

definition toLowerCase :: "string \<Rightarrow> string" where
  "toLowerCase message = map lowerChar message"

fun str_includes :: "string \<Rightarrow> string \<Rightarrow> bool" where
  "str_includes [] keyword = (keyword = [])"
| "str_includes (c # cs) keyword = (prefix keyword (c # cs) \<or> str_includes cs keyword)"

text \<open>
  The object an NPC-handling function is given. Of it the dialogue and challenge code
  reads \<open>userData\<close> and, inside it, \<open>isMainNPC\<close>, \<open>name\<close> and \<open>dialogs\<close>. An object
  without \<open>userData\<close> is \<open>None\<close>; a name that was never assigned is \<open>None\<close>.
\<close>

record userData =
  isMainNPC :: bool
  speakerName :: "string option"
  dialogs :: "string list"

type_synonym npcObject = "userData option"

definition getMrsWicketResponse :: "string \<Rightarrow> string" where
  "getMrsWicketResponse message =
     (if str_includes message ''rent'' then
        ''Yes, yes, the rent! It's due on Friday, don't forget!''
      else if str_includes message ''cat'' \<or> str_includes message ''scrapper'' then
        ''Oh, have you seen my Scrapper? He's such a dear cat. Though he doesn't seem to like you much, Mr. Bean!''
      else if str_includes message ''noise'' \<or> str_includes message ''loud'' then
        ''The noise from your flat is absolutely dreadful! What are you doing up there?''
      else if str_includes message ''hello'' \<or> str_includes message ''hi'' then
        ''Good day, Mr. Bean. I hope you're not planning any of your usual shenanigans.''
      else if str_includes message ''sorry'' then
        ''Well, just try to be more careful next time, Mr. Bean.''
      else
        ''Hmph! Just make sure you keep the noise down and pay your rent on time!'')"

definition getIrmaResponse :: "string \<Rightarrow> string" where
  "getIrmaResponse message =
     (if str_includes message ''date'' then
        ''Oh, Mr. Bean! I thought you'd never ask. Shall we go to the restaurant?''
      else if str_includes message ''teddy'' then
        ''That teddy bear of yours... Sometimes I think you love it more than me!''
      else if str_includes message ''hello'' \<or> str_includes message ''hi'' then
        ''Hello, Mr. Bean! I was just thinking about you!''
      else if str_includes message ''gift'' \<or> str_includes message ''present'' then
        ''You remembered! Though last time you gave me a picture of yourself...''
      else if str_includes message ''love'' then
        ''Oh, Mr. Bean... *blushes* You're sweet when you want to be.''
      else
        ''We should go on another date soon, Mr. Bean!'')"

definition getRupertResponse :: "string \<Rightarrow> string" where
  "getRupertResponse message =
     (if str_includes message ''noise'' then
        ''You're making too much noise again, Bean! I'm trying to get some peace and quiet!''
      else if str_includes message ''garden'' then
        ''Stay away from my garden, Bean! I saw what you did to my flowers last time!''
      else if str_includes message ''hello'' \<or> str_includes message ''hi'' then
        ''What do you want now, Bean?''
      else if str_includes message ''sorry'' then
        ''Hmph! You're always sorry after the fact, aren't you?''
      else
        ''Just keep your distance, Bean. I'm watching you!'')"

definition getGenericResponse :: "string \<Rightarrow> string" where
  "getGenericResponse message =
     (if str_includes message ''hello'' \<or> str_includes message ''hi'' then
        ''Hello! Lovely day, isn't it?''
      else if str_includes message ''weather'' then
        ''Yes, typical British weather we're having!''
      else if str_includes message ''bean'' then
        ''Oh, you know Mr. Bean? Quite a peculiar fellow, isn't he?''
      else if str_includes message ''shop'' \<or> str_includes message ''store'' then
        ''The shops around here are quite nice. Have you tried the new caf'' @ [CHR 0xE9] @ ''?''
      else if str_includes message ''car'' then
        ''That green Mini is always causing chaos around here!''
      else
        ''Oh, how interesting! Do tell me more about that.'')"

text \<open>
  The response \<open>handlePlayerMessage\<close> writes into the dialogue: the message is
  lower-cased, and the character's own function answers for the three main characters,
  the generic one for everybody else.
\<close>

definition playerMessageResponse :: "string \<Rightarrow> npcObject \<Rightarrow> string" where
  "playerMessageResponse message npc =
     (let lowered = toLowerCase message
      in case npc of
           None \<Rightarrow> getGenericResponse lowered
         | Some ud \<Rightarrow>
             if isMainNPC ud then
               (if speakerName ud = Some ''Mrs. Wicket'' then getMrsWicketResponse lowered
                else if speakerName ud = Some ''Irma Gobb'' then getIrmaResponse lowered
                else if speakerName ud = Some ''Rupert'' then getRupertResponse lowered
                else getGenericResponse lowered)
             else getGenericResponse lowered)"

section \<open>The objects a dialogue is shown for\<close>

text \<open>
  \<open>setupNPCs\<close> creates three main characters from fixed configurations and ten
  background characters. A main character's \<open>userData\<close> holds its name and lines; a
  background character is a plain three.js group, whose \<open>userData\<close> is the empty object
  every \<open>Object3D\<close> is created with: no \<open>isMainNPC\<close>, no name, and lines that are
  never read. The challenge code also hands \<open>showDialog\<close> object literals of the form
  \<open>{userData: {name, dialogs}}\<close>; \<open>notice\<close> builds those.
\<close>

definition speakerOf :: "mainNPCConfig \<Rightarrow> npcObject" where
  "speakerOf config =
     Some \<lparr>isMainNPC = True, speakerName = Some (cfgName config), dialogs = cfgDialogs config\<rparr>"

definition backgroundNPC :: npcObject where
  "backgroundNPC = Some \<lparr>isMainNPC = False, speakerName = None, dialogs = []\<rparr>"

definition townSpeakers :: "npcObject list" where
  "townSpeakers = map speakerOf mainNPCConfigs @ [backgroundNPC]"

definition notice :: "string \<Rightarrow> string list \<Rightarrow> npcObject" where
  "notice heading lines =
     Some \<lparr>isMainNPC = False, speakerName = Some heading, dialogs = lines\<rparr>"

section \<open>Challenges\<close>

record step =
  stepText :: string
  stepCompleted :: bool

record challenge =
  challengeId :: int
  title :: string
  description :: string
  completed :: bool
  steps :: "step list"
  reward :: string

text \<open>
  The state the challenge and dialogue code works on. \<open>activeChallenge\<close> is a reference
  to one of the objects of \<open>challenges\<close>: here, its index. \<open>sceneObjects\<close> is
  \<open>scene.children\<close>. The dialogue element exists once \<open>createDialogElement\<close> has run;
  \<open>dialogName\<close> and \<open>dialogMessage\<close> are the text of its two labels. \<open>shownDialogs\<close>
  records every pair \<open>showDialog\<close> has put on screen, oldest first. \<open>Math.random()\<close>
  returns \<open>randomSource\<close> at \<open>randomDraws\<close> and moves on.
\<close>

record game =
  challenges :: "challenge list"
  activeChallenge :: "nat option"
  sceneObjects :: "object3d list"
  dialogElement :: bool
  dialogName :: string
  dialogMessage :: string
  dialogDisplayed :: bool
  currentNPC :: "npcObject option"
  shownDialogs :: "(string \<times> string) list"
  randomSource :: "nat \<Rightarrow> real"
  randomDraws :: nat

definition teddyStep0 :: step where
  "teddyStep0 = \<lparr>stepText = ''Talk to Mrs. Wicket about Teddy'', stepCompleted = False\<rparr>"

definition teddyStep1 :: step where
  "teddyStep1 = \<lparr>stepText = ''Search the park benches'', stepCompleted = False\<rparr>"

definition teddyStep2 :: step where
  "teddyStep2 = \<lparr>stepText = ''Check the department store'', stepCompleted = False\<rparr>"

definition findTeddyChallenge :: challenge where
  "findTeddyChallenge =
     \<lparr>challengeId = 1, title = ''Find Teddy'',
      description = ''Your beloved Teddy has gone missing! Mrs. Wicket might have seen it last.'',
      completed = False,
      steps = [teddyStep0, teddyStep1, teddyStep2],
      reward = ''You found Teddy! He's happy to be back with you.''\<rparr>"

definition lateStep0 :: step where
  "lateStep0 = \<lparr>stepText = ''Check your broken car'', stepCompleted = False\<rparr>"

definition lateStep1 :: step where
  "lateStep1 = \<lparr>stepText = ''Find Rupert and ask for help'', stepCompleted = False\<rparr>"

definition lateStep2 :: step where
  "lateStep2 = \<lparr>stepText = ''Get to the city center clinic'', stepCompleted = False\<rparr>"

definition lateForAppointmentChallenge :: challenge where
  "lateForAppointmentChallenge =
     \<lparr>challengeId = 2, title = ''Late for Appointment'',
      description = ''You're late for your dentist appointment! But your car won't start...'',
      completed = False,
      steps = [lateStep0, lateStep1, lateStep2],
      reward = ''You made it to the dentist! Only 30 minutes late...''\<rparr>"

definition shoppingStep0 :: step where
  "shoppingStep0 = \<lparr>stepText = ''Talk to Irma about her interests'', stepCompleted = False\<rparr>"

definition shoppingStep1 :: step where
  "shoppingStep1 = \<lparr>stepText = ''Visit the department store for sales'', stepCompleted = False\<rparr>"

definition shoppingStep2 :: step where
  "shoppingStep2 = \<lparr>stepText = ''Find the perfect gift'', stepCompleted = False\<rparr>"

definition christmasShoppingChallenge :: challenge where
  "christmasShoppingChallenge =
     \<lparr>challengeId = 3, title = ''Christmas Shopping'',
      description = ''You need to buy a Christmas present for Irma, but you're on a budget!'',
      completed = False,
      steps = [shoppingStep0, shoppingStep1, shoppingStep2],
      reward = ''You found a lovely gift that Irma will surely appreciate!''\<rparr>"

definition challengeCatalog :: "challenge list" where
  "challengeCatalog =
     [findTeddyChallenge, lateForAppointmentChallenge, christmasShoppingChallenge]"

text \<open>The game once \<open>initialize\<close> has run: the catalogue, no active challenge, a hidden dialogue.\<close>

definition newGame :: "object3d list \<Rightarrow> (nat \<Rightarrow> real) \<Rightarrow> game" where
  "newGame objects rnd =
     \<lparr>challenges = challengeCatalog, activeChallenge = None, sceneObjects = objects,
      dialogElement = True, dialogName = [], dialogMessage = [], dialogDisplayed = False,
      currentNPC = None, shownDialogs = [], randomSource = rnd, randomDraws = 0\<rparr>"

subsection \<open>Showing and hiding a dialogue\<close>

definition genericDialogs :: "string list" where
  "genericDialogs =
     [''Hello there! Lovely weather we're having.'',
      ''Good day! Have you seen Mr. Bean's teddy?'',
      ''Mind the road, dear! The traffic's been terrible.'',
      ''Fancy a cup of tea? The caf'' @ [CHR 0xE9, CHR 0x27] @ ''s just around the corner.'',
      ''I heard there's a sale at the department store today!'',
      ''Lovely day for a walk in the park, isn't it?'',
      ''Have you tried the new bakery? Their scones are divine!'']"

text \<open>
  \<open>lines[Math.floor(r * lines.length)]\<close>: the element, or \<open>undefined\<close> outside the
  array. Assigning \<open>undefined\<close> to \<open>textContent\<close> leaves the label empty.
\<close>

definition pickLine :: "real \<Rightarrow> string list \<Rightarrow> string option" where
  "pickLine r lines =
     (let i = \<lfloor>r * real (length lines)\<rfloor>
      in if 0 \<le> i \<and> nat i < length lines then Some (lines ! nat i) else None)"

definition textContent :: "string option \<Rightarrow> string" where
  "textContent v = (case v of None \<Rightarrow> [] | Some t \<Rightarrow> t)"

definition dialogFor :: "npcObject \<Rightarrow> real \<Rightarrow> string \<times> string" where
  "dialogFor npc r =
     (case npc of
        None \<Rightarrow> (''Citizen'', textContent (pickLine r genericDialogs))
      | Some ud \<Rightarrow>
          if isMainNPC ud
          then (textContent (speakerName ud), textContent (pickLine r (dialogs ud)))
          else (''Citizen'', textContent (pickLine r genericDialogs)))"

definition showDialog :: "npcObject \<Rightarrow> game \<Rightarrow> game" where
  "showDialog npc s =
     (if \<not> dialogElement s then s
      else
        (let shownNow = dialogFor npc (randomSource s (randomDraws s))
         in s\<lparr>currentNPC := Some npc,
              dialogName := fst shownNow,
              dialogMessage := snd shownNow,
              dialogDisplayed := True,
              shownDialogs := shownDialogs s @ [shownNow],
              randomDraws := Suc (randomDraws s)\<rparr>))"

definition hideDialog :: "game \<Rightarrow> game" where
  "hideDialog s =
     (if dialogElement s then s\<lparr>dialogDisplayed := False, currentNPC := None\<rparr> else s)"

subsection \<open>Starting a challenge\<close>

definition alreadyCompletedNotice :: npcObject where
  "alreadyCompletedNotice =
     notice ''Challenge Complete'' [''You've already completed this challenge!'']"

fun findIndex :: "('a \<Rightarrow> bool) \<Rightarrow> 'a list \<Rightarrow> nat option" where
  "findIndex P [] = None"
| "findIndex P (x # xs) = (if P x then Some 0 else map_option Suc (findIndex P xs))"

definition resetSteps :: "challenge \<Rightarrow> challenge" where
  "resetSteps c = c\<lparr>steps := map (\<lambda>st. st\<lparr>stepCompleted := False\<rparr>) (steps c)\<rparr>"

definition startChallenge :: "int \<Rightarrow> game \<Rightarrow> game" where
  "startChallenge cid s =
     (case findIndex (\<lambda>c. challengeId c = cid) (challenges s) of
        None \<Rightarrow> s
      | Some i \<Rightarrow>
          if \<not> completed (challenges s ! i) then
            (let s1 = (case activeChallenge s of
                         None \<Rightarrow> s
                       | Some a \<Rightarrow>
                           if challengeId (challenges s ! a) \<noteq> cid
                           then s\<lparr>challenges :=
                                    (challenges s)[a := resetSteps (challenges s ! a)]\<rparr>
                           else s)
             in showDialog (notice ''New Challenge'' [description (challenges s ! i)])
                  (s1\<lparr>activeChallenge := Some i\<rparr>))
          else
            showDialog alreadyCompletedNotice s)"

subsection \<open>Completing steps\<close>

text \<open>
  Reading \<open>steps[k].completed\<close> of a challenge with no step \<open>k\<close> raises a
  \<open>TypeError\<close>, which ends the handler. Conditions are evaluated left to right, and
  \<open>&&\<close> does not evaluate its right side when the left is false.
\<close>

datatype error = TypeError

definition stepDone :: "challenge \<Rightarrow> nat \<Rightarrow> error + bool" where
  "stepDone c k =
     (if k < length (steps c) then Inr (stepCompleted (steps c ! k)) else Inl TypeError)"

fun andAlso :: "error + bool \<Rightarrow> error + bool \<Rightarrow> error + bool" where
  "andAlso (Inl e) b = Inl e"
| "andAlso (Inr False) b = Inr False"
| "andAlso (Inr True) b = b"

fun negated :: "error + bool \<Rightarrow> error + bool" where
  "negated (Inl e) = Inl e"
| "negated (Inr b) = Inr (\<not> b)"

fun branch :: "error + bool \<Rightarrow> error + game \<Rightarrow> error + game \<Rightarrow> error + game" where
  "branch (Inl e) yes no = Inl e"
| "branch (Inr True) yes no = yes"
| "branch (Inr False) yes no = no"

fun andThen :: "error + game \<Rightarrow> (game \<Rightarrow> game) \<Rightarrow> error + game" where
  "andThen (Inl e) f = Inl e"
| "andThen (Inr s) f = Inr (f s)"

definition wellDoneNotice :: npcObject where
  "wellDoneNotice =
     notice ''Challenge Complete!'' [''Well done! You've completed the challenge!'']"

definition markStep :: "nat \<Rightarrow> challenge \<Rightarrow> challenge" where
  "markStep k c = c\<lparr>steps := (steps c)[k := (steps c ! k)\<lparr>stepCompleted := True\<rparr>]\<rparr>"

definition updateChallengeProgress :: "nat \<Rightarrow> game \<Rightarrow> error + game" where
  "updateChallengeProgress stepIndex s =
     (case activeChallenge s of
        None \<Rightarrow> Inr s
      | Some a \<Rightarrow>
          (case stepDone (challenges s ! a) stepIndex of
             Inl e \<Rightarrow> Inl e
           | Inr True \<Rightarrow> Inr s
           | Inr False \<Rightarrow>
               (let marked = markStep stepIndex (challenges s ! a)
                in if list_all stepCompleted (steps marked) then
                     Inr ((showDialog wellDoneNotice
                             (s\<lparr>challenges :=
                                  (challenges s)[a := marked\<lparr>completed := True\<rparr>]\<rparr>))
                          \<lparr>activeChallenge := None\<rparr>)
                   else Inr (s\<lparr>challenges := (challenges s)[a := marked]\<rparr>))))"

definition completeChallenge :: "game \<Rightarrow> game" where
  "completeChallenge s =
     (case activeChallenge s of
        None \<Rightarrow> s
      | Some a \<Rightarrow>
          (let shown = showDialog (notice ''Challenge Complete!'' [reward (challenges s ! a)]) s
           in shown\<lparr>challenges :=
                      (challenges shown)[a := (challenges shown ! a)\<lparr>completed := True\<rparr>],
                    activeChallenge := None\<rparr>))"

subsection \<open>Progress on talking to an NPC\<close>

text \<open>The object literals the progress check hands to \<open>showDialog\<close>.\<close>

definition teddyNoteNotice :: npcObject where
  "teddyNoteNotice =
     notice ''Mr. Bean''
       [''Aha! There's a note here... 'Your Teddy is at the department store.'' @ [CHR 0x27]]"

definition brokenCarNotice :: npcObject where
  "brokenCarNotice =
     notice ''Mr. Bean'' [''Oh no! The car won't start! Maybe Rupert can help...'']"

definition rupertHelpsNotice :: npcObject where
  "rupertHelpsNotice =
     notice ''Rupert''
       [''*Sigh* Fine, Bean. The clinic is in the city center, near the department store.'']"

definition irmaWishNotice :: npcObject where
  "irmaWishNotice =
     notice ''Irma''
       [''Oh, Mr. Bean! I do love that teddy bear in the department store window...'']"

definition teddySaleNotice :: npcObject where
  "teddySaleNotice =
     notice ''Store Clerk'' [''The teddy bears are on sale today! Perfect timing!'']"

definition nearBench :: "vec3 \<Rightarrow> object3d list \<Rightarrow> bool" where
  "nearBench playerPos objects =
     (0 < length (filter (\<lambda>ob. isBench ob \<and> distanceTo playerPos (position ob) < 2) objects))"

definition nearDepartmentStore :: "vec3 \<Rightarrow> object3d list \<Rightarrow> bool" where
  "nearDepartmentStore playerPos objects =
     list_ex (\<lambda>ob. isDepartmentStore ob \<and> distanceTo playerPos (position ob) < 5) objects"

definition findTeddy :: "string option \<Rightarrow> vec3 \<Rightarrow> challenge \<Rightarrow> game \<Rightarrow> error + game" where
  "findTeddy npcName playerPos c s =
     branch (andAlso (Inr (npcName = Some ''Mrs. Wicket'')) (negated (stepDone c 0)))
       (updateChallengeProgress 0 s)
       (branch (andAlso (stepDone c 0) (negated (stepDone c 1)))
          (if nearBench playerPos (sceneObjects s)
           then andThen (updateChallengeProgress 1 s)
                  (showDialog teddyNoteNotice)
           else Inr s)
          (branch (andAlso (stepDone c 1) (negated (stepDone c 2)))
             (if nearDepartmentStore playerPos (sceneObjects s)
              then andThen (updateChallengeProgress 2 s) completeChallenge
              else Inr s)
             (Inr s)))"

definition lateForAppointment ::
    "string option \<Rightarrow> vec3 \<Rightarrow> challenge \<Rightarrow> game \<Rightarrow> error + game" where
  "lateForAppointment npcName playerPos c s =
     branch (negated (stepDone c 0))
       (if distanceTo playerPos (vec (-38) 0 (-28)) < 2
        then andThen (updateChallengeProgress 0 s)
               (showDialog brokenCarNotice)
        else Inr s)
       (branch (andAlso (Inr (npcName = Some ''Rupert'')) (negated (stepDone c 1)))
          (andThen (updateChallengeProgress 1 s) (showDialog rupertHelpsNotice))
          (branch (andAlso (stepDone c 1) (negated (stepDone c 2)))
             (if distanceTo playerPos (vec 30 0 (-30)) < 10
              then andThen (updateChallengeProgress 2 s) completeChallenge
              else Inr s)
             (Inr s)))"

definition christmasShopping ::
    "string option \<Rightarrow> vec3 \<Rightarrow> challenge \<Rightarrow> game \<Rightarrow> error + game" where
  "christmasShopping npcName playerPos c s =
     branch (andAlso (Inr (npcName = Some ''Irma Gobb'')) (negated (stepDone c 0)))
       (andThen (updateChallengeProgress 0 s) (showDialog irmaWishNotice))
       (branch (andAlso (stepDone c 0) (negated (stepDone c 1)))
          (if nearDepartmentStore playerPos (sceneObjects s)
           then andThen (updateChallengeProgress 1 s)
                  (showDialog teddySaleNotice)
           else Inr s)
          (branch (andAlso (stepDone c 1) (negated (stepDone c 2)))
             (if npcName = Some ''Store Clerk''
              then andThen (updateChallengeProgress 2 s) completeChallenge
              else Inr s)
             (Inr s)))"

definition checkChallengeProgress :: "npcObject \<Rightarrow> vec3 \<Rightarrow> game \<Rightarrow> error + game" where
  "checkChallengeProgress npc playerPos s =
     (case activeChallenge s of
        None \<Rightarrow> Inr s
      | Some a \<Rightarrow>
          (case npc of
             None \<Rightarrow> Inr s
           | Some ud \<Rightarrow>
               (let c = challenges s ! a; npcName = speakerName ud
                in if challengeId c = 1 then findTeddy npcName playerPos c s
                   else if challengeId c = 2 then lateForAppointment npcName playerPos c s
                   else if challengeId c = 3 then christmasShopping npcName playerPos c s
                   else Inr s)))"

subsection \<open>Events\<close>

text \<open>
  What reaches the challenge and dialogue state during a session: a click on an entry
  of the challenge menu, the interaction key pressed next to an NPC (the handler shows
  the NPC's dialogue and then checks the challenge), and a dialogue being hidden.
\<close>

datatype gameEvent = StartChallenge int | TalkTo npcObject vec3 | HideDialog

fun applyEvent :: "gameEvent \<Rightarrow> game \<Rightarrow> error + game" where
  "applyEvent (StartChallenge cid) s = Inr (startChallenge cid s)"
| "applyEvent (TalkTo npc playerPos) s = checkChallengeProgress npc playerPos (showDialog npc s)"
| "applyEvent HideDialog s = Inr (hideDialog s)"

fun run :: "gameEvent list \<Rightarrow> game \<Rightarrow> error + game" where
  "run [] s = Inr s"
| "run (e # es) s = (case applyEvent e s of Inl err \<Rightarrow> Inl err | Inr s' \<Rightarrow> run es s')"

section \<open>The interaction freeze\<close>

text \<open>
  An NPC as the interaction handler sees it: whether the object has \<open>userData\<close>, the
  \<open>walkSpeed\<close> stored in \<open>userData\<close> (which moves a main character) and the
  \<open>walkSpeed\<close> property of the object itself (which moves a background character). A
  property that was never assigned is \<open>None\<close>. Every three.js object is created with an
  empty \<open>userData\<close>, so a background character has one too.
\<close>

record walker =
  hasUserData :: bool
  userDataWalkSpeed :: "real option"
  ownWalkSpeed :: "real option"

definition mainWalker :: walker where
  "mainWalker = \<lparr>hasUserData = True, userDataWalkSpeed = Some 0.01, ownWalkSpeed = None\<rparr>"

definition backgroundWalker :: "real \<Rightarrow> walker" where
  "backgroundWalker r =
     \<lparr>hasUserData = True, userDataWalkSpeed = None, ownWalkSpeed = Some (0.02 + r * 0.02)\<rparr>"

text \<open>
  A pending \<open>setTimeout\<close> callback of the handler: when it is due (in milliseconds),
  the NPC it closed over and the speed it saved. All callbacks have the same delay, so
  they fire in the order they were scheduled.
\<close>

record pendingRestore =
  due :: nat
  target :: nat
  savedSpeed :: "real option"

record town =
  walkers :: "walker list"
  pending :: "pendingRestore list"
  clock :: nat

definition freezeDuration :: nat where
  "freezeDuration = 30000"

definition currentSpeed :: "walker \<Rightarrow> real option" where
  "currentSpeed npc = (if hasUserData npc then userDataWalkSpeed npc else ownWalkSpeed npc)"

definition setSpeed :: "real option \<Rightarrow> walker \<Rightarrow> walker" where
  "setSpeed v npc =
     (if hasUserData npc then npc\<lparr>userDataWalkSpeed := v\<rparr> else npc\<lparr>ownWalkSpeed := v\<rparr>)"

text \<open>The interaction handler, for the NPC at index \<open>i\<close> being the closest and in range.\<close>

definition interact :: "nat \<Rightarrow> town \<Rightarrow> town" where
  "interact i s =
     (if i < length (walkers s) then
        s\<lparr>walkers := (walkers s)[i := setSpeed (Some 0) (walkers s ! i)],
          pending := pending s
            @ [\<lparr>due = clock s + freezeDuration, target = i,
                 savedSpeed = currentSpeed (walkers s ! i)\<rparr>]\<rparr>
      else s)"

definition restore :: "pendingRestore \<Rightarrow> walker list \<Rightarrow> walker list" where
  "restore p ws =
     (if target p < length ws then ws[target p := setSpeed (savedSpeed p) (ws ! target p)]
      else ws)"

fun fireDue :: "nat \<Rightarrow> pendingRestore list \<Rightarrow> walker list \<Rightarrow> walker list \<times> pendingRestore list" where
  "fireDue now [] ws = (ws, [])"
| "fireDue now (p # ps) ws =
     (if due p \<le> now then fireDue now ps (restore p ws)
      else (let (ws', rest) = fireDue now ps ws in (ws', p # rest)))"

definition elapse :: "nat \<Rightarrow> town \<Rightarrow> town" where
  "elapse ms s =
     (let now = clock s + ms; (ws, rest) = fireDue now (pending s) (walkers s)
      in s\<lparr>walkers := ws, pending := rest, clock := now\<rparr>)"

datatype townEvent = Interact nat | Elapse nat

fun applyTownEvent :: "townEvent \<Rightarrow> town \<Rightarrow> town" where
  "applyTownEvent (Interact i) s = interact i s"
| "applyTownEvent (Elapse ms) s = elapse ms s"

fun runTown :: "townEvent list \<Rightarrow> town \<Rightarrow> town" where
  "runTown [] s = s"
| "runTown (e # es) s = runTown es (applyTownEvent e s)"

definition townStart :: "walker list \<Rightarrow> town" where
  "townStart ws = \<lparr>walkers = ws, pending = [], clock = 0\<rparr>"

section \<open>Sample inputs and auxiliary predicates\<close>

text \<open>
  The rest of this chapter is not code of the game: it names the inputs at which the
  properties of the next chapter are evaluated, and the predicates their statements and
  proofs use.
\<close>

subsection \<open>Keys and random draws\<close>

definition keysForward :: keys where
  "keysForward = \<lparr>key_w = True, key_a = False, key_s = False, key_d = False\<rparr>"

text \<open>Draws that put all fifteen trees at the centre of the park.\<close>

definition sampleTreeDraws :: "(real \<times> real) list" where
  "sampleTreeDraws =
     [(0.5, 0.5), (0.5, 0.5), (0.5, 0.5), (0.5, 0.5), (0.5, 0.5),
      (0.5, 0.5), (0.5, 0.5), (0.5, 0.5), (0.5, 0.5), (0.5, 0.5),
      (0.5, 0.5), (0.5, 0.5), (0.5, 0.5), (0.5, 0.5), (0.5, 0.5)]"

subsection \<open>Colliders in a query and in the world\<close>

text \<open>
  The colliders a query consults: the stores, and the objects of the scene graph that
  are not stores.
\<close>

definition registered :: "object3d list \<Rightarrow> object3d \<Rightarrow> object3d \<Rightarrow> bool" where
  "registered stores scene ob =
     (ob \<in> set stores \<or> (ob \<in> set (traverse scene) \<and> \<not> isStore ob))"

definition inBounds :: "vec3 \<Rightarrow> bool" where
  "inBounds p = (- maxDistance \<le> vx p \<and> vx p \<le> maxDistance
                 \<and> - maxDistance \<le> vz p \<and> vz p \<le> maxDistance)"

text \<open>
  Where an object is in the world: three.js composes the transforms up the chain of
  parents, and none of the groups here is rotated or scaled, so it is the sum of the
  positions from the root down. \<open>worldBoxes\<close> lists, in traversal order, each collider
  translated by its owner's place in the world; \<open>queryBoxes\<close> lists the boxes the
  collision query uses.
\<close>

fun worldBoxes :: "vec3 \<Rightarrow> object3d \<Rightarrow> box3 list" where
  "worldBoxes parentPos (Object3D p c s b d ch) =
     (case c of None \<Rightarrow> [] | Some cb \<Rightarrow> [translate cb (vadd parentPos p)])
       @ concat (map (worldBoxes (vadd parentPos p)) ch)"

definition queryBoxes :: "object3d \<Rightarrow> box3 list" where
  "queryBoxes ob = List.map_filter queryBox (traverse ob)"

text \<open>Each object that has a collider, with that collider where the object is in the world.\<close>

fun worldColliders :: "vec3 \<Rightarrow> object3d \<Rightarrow> (object3d \<times> box3) list" where
  "worldColliders parentPos (Object3D p c s b d ch) =
     (case c of None \<Rightarrow> []
      | Some cb \<Rightarrow> [(Object3D p c s b d ch, translate cb (vadd parentPos p))])
       @ concat (map (worldColliders (vadd parentPos p)) ch)"

text \<open>Mr. Bean's house as \<open>createArbourRoad\<close> places it in the street's group.\<close>

definition beanHouse :: object3d where
  "beanHouse = setPosition (vec 0 0 0) createBritishHouse"

subsection \<open>A main character near the edge of its radius\<close>


text \<open>
  Mrs. Wicket 4.58 east and 2 south of her anchor, walking east: inside her radius, with
  a next step that would leave it.
\<close>

definition wicketNearEdge :: mainNPC where
  "wicketNearEdge =
     \<lparr>npcPosition = vec (-37.42) 0 (-30), npcRotationY = 0,
      characterName = ''Mrs. Wicket'', characterDialogs = [],
      walkSpeed = 0.01, walkDirection = 0,
      originalPosition = vec (-42) 0 (-32), maxWanderDistance = 5\<rparr>"

subsection \<open>The keyword tables\<close>

text \<open>
  The specification describes the responses as ordered tables: each row holds the
  keywords of one predicate and its response, the first row with a keyword in the
  message answers, and a default line answers when no row does. The tables below are
  that reading, to be compared with the functions above.
\<close>

type_synonym keywordTable = "(string list \<times> string) list"

definition rowMatches :: "string \<Rightarrow> string list \<times> string \<Rightarrow> bool" where
  "rowMatches message row = list_ex (str_includes message) (fst row)"

definition firstMatch :: "keywordTable \<Rightarrow> string \<Rightarrow> string \<Rightarrow> string" where
  "firstMatch table fallback message =
     (case find (rowMatches message) table of Some row \<Rightarrow> snd row | None \<Rightarrow> fallback)"

definition mrsWicketTable :: keywordTable where
  "mrsWicketTable =
     [([''rent''], ''Yes, yes, the rent! It's due on Friday, don't forget!''),
      ([''cat'', ''scrapper''],
       ''Oh, have you seen my Scrapper? He's such a dear cat. Though he doesn't seem to like you much, Mr. Bean!''),
      ([''noise'', ''loud''],
       ''The noise from your flat is absolutely dreadful! What are you doing up there?''),
      ([''hello'', ''hi''],
       ''Good day, Mr. Bean. I hope you're not planning any of your usual shenanigans.''),
      ([''sorry''], ''Well, just try to be more careful next time, Mr. Bean.'')]"

definition irmaTable :: keywordTable where
  "irmaTable =
     [([''date''], ''Oh, Mr. Bean! I thought you'd never ask. Shall we go to the restaurant?''),
      ([''teddy''], ''That teddy bear of yours... Sometimes I think you love it more than me!''),
      ([''hello'', ''hi''], ''Hello, Mr. Bean! I was just thinking about you!''),
      ([''gift'', ''present''],
       ''You remembered! Though last time you gave me a picture of yourself...''),
      ([''love''], ''Oh, Mr. Bean... *blushes* You're sweet when you want to be.'')]"

definition rupertTable :: keywordTable where
  "rupertTable =
     [([''noise''],
       ''You're making too much noise again, Bean! I'm trying to get some peace and quiet!''),
      ([''garden''],
       ''Stay away from my garden, Bean! I saw what you did to my flowers last time!''),
      ([''hello'', ''hi''], ''What do you want now, Bean?''),
      ([''sorry''], ''Hmph! You're always sorry after the fact, aren't you?'')]"

definition genericTable :: keywordTable where
  "genericTable =
     [([''hello'', ''hi''], ''Hello! Lovely day, isn't it?''),
      ([''weather''], ''Yes, typical British weather we're having!''),
      ([''bean''], ''Oh, you know Mr. Bean? Quite a peculiar fellow, isn't he?''),
      ([''shop'', ''store''],
       ''The shops around here are quite nice. Have you tried the new caf'' @ [CHR 0xE9] @ ''?''),
      ([''car''], ''That green Mini is always causing chaos around here!'')]"

datatype identity = MrsWicket | IrmaGobb | Rupert | Generic

definition identityOf :: "npcObject \<Rightarrow> identity" where
  "identityOf npc =
     (case npc of
        None \<Rightarrow> Generic
      | Some ud \<Rightarrow>
          if isMainNPC ud \<and> speakerName ud = Some ''Mrs. Wicket'' then MrsWicket
          else if isMainNPC ud \<and> speakerName ud = Some ''Irma Gobb'' then IrmaGobb
          else if isMainNPC ud \<and> speakerName ud = Some ''Rupert'' then Rupert
          else Generic)"

fun tableOf :: "identity \<Rightarrow> keywordTable" where
  "tableOf MrsWicket = mrsWicketTable"
| "tableOf IrmaGobb = irmaTable"
| "tableOf Rupert = rupertTable"
| "tableOf Generic = genericTable"

fun fallbackOf :: "identity \<Rightarrow> string" where
  "fallbackOf MrsWicket =
     ''Hmph! Just make sure you keep the noise down and pay your rent on time!''"
| "fallbackOf IrmaGobb = ''We should go on another date soon, Mr. Bean!''"
| "fallbackOf Rupert = ''Just keep your distance, Bean. I'm watching you!''"
| "fallbackOf Generic = ''Oh, how interesting! Do tell me more about that.''"

subsection \<open>What a progress check changed\<close>

definition sameOthers :: "nat \<Rightarrow> game \<Rightarrow> game \<Rightarrow> bool" where
  "sameOthers a s s' =
     (length (challenges s') = length (challenges s)
      \<and> (\<forall>i<length (challenges s). i \<noteq> a \<longrightarrow> challenges s' ! i = challenges s ! i)
      \<and> length (steps (challenges s' ! a)) = length (steps (challenges s ! a))
      \<and> (activeChallenge s' = Some a \<or> activeChallenge s' = None))"

definition marked :: "nat \<Rightarrow> nat \<Rightarrow> game \<Rightarrow> game \<Rightarrow> bool" where
  "marked a k s s' =
     (sameOthers a s s'
      \<and> (steps (challenges s' ! a) = steps (challenges s ! a)
          \<or> (k < length (steps (challenges s ! a))
              \<and> \<not> stepCompleted (steps (challenges s ! a) ! k)
              \<and> steps (challenges s' ! a)
                  = (steps (challenges s ! a))[k := (steps (challenges s ! a) ! k)\<lparr>stepCompleted := True\<rparr>])))"

definition ordered :: "nat \<Rightarrow> game \<Rightarrow> game \<Rightarrow> bool" where
  "ordered a s s' =
     (sameOthers a s s'
      \<and> (\<forall>n<length (steps (challenges s ! a)).
            0 < n \<and> \<not> stepCompleted (steps (challenges s ! a) ! n)
              \<and> stepCompleted (steps (challenges s' ! a) ! n)
            \<longrightarrow> stepCompleted (steps (challenges s ! a) ! (n - 1))))"

subsection \<open>Sessions\<close>

text \<open>An NPC the player can talk to is one of those \<open>setupNPCs\<close> created.\<close>

fun fromTown :: "gameEvent \<Rightarrow> bool" where
  "fromTown (TalkTo npc playerPos) = (npc \<in> set townSpeakers)"
| "fromTown e = True"

definition citizenLine :: "real \<Rightarrow> string \<times> string" where
  "citizenLine r = (''Citizen'', textContent (pickLine r genericDialogs))"

text \<open>
  The scenario of the specification: "Find Teddy" is active with no step completed, and
  the player talks to Mrs. Wicket.
\<close>

definition teddyStarted :: game where
  "teddyStarted = startChallenge 1 (newGame [] (\<lambda>n. 0))"

text \<open>
  A session that completes "Late for Appointment": the challenge is started, the player
  talks to Mrs. Wicket next to the car, to Rupert, and to Irma near the department store.
\<close>

definition lateRun :: "gameEvent list" where
  "lateRun =
     [StartChallenge 2,
      TalkTo (speakerOf wicketConfig) (vec (-38.5) 0 (-28.5)),
      TalkTo (speakerOf rupertConfig) (vec (-34) 0 (-31)),
      TalkTo (speakerOf irmaConfig) (vec 25 0 (-26))]"

definition lateDone :: "challenge list" where
  "lateDone =
     [findTeddyChallenge,
      lateForAppointmentChallenge
        \<lparr>completed := True,
         steps := [lateStep0\<lparr>stepCompleted := True\<rparr>, lateStep1\<lparr>stepCompleted := True\<rparr>,
                   lateStep2\<lparr>stepCompleted := True\<rparr>]\<rparr>,
      christmasShoppingChallenge]"

definition lateReward :: string where
  "lateReward = ''You made it to the dentist! Only 30 minutes late...''"

definition alreadyCompletedText :: string where
  "alreadyCompletedText = ''You've already completed this challenge!''"

subsection \<open>The invariant of a session in town\<close>

text \<open>
  What holds of the challenge state throughout a session in the game's town: the
  catalogue keeps its three challenges of three steps, steps 1 and 2 of "Find Teddy"
  and step 2 of "Christmas Shopping" are incomplete, neither of those two challenges
  is completed, and no child of the scene is a bench.
\<close>

definition threeSteps :: "challenge \<Rightarrow> bool" where
  "threeSteps c = (length (steps c) = 3)"

definition townInvariant :: "game \<Rightarrow> bool" where
  "townInvariant s =
     (length (challenges s) = 3
      \<and> challengeId (challenges s ! 0) = 1
      \<and> challengeId (challenges s ! 1) = 2
      \<and> challengeId (challenges s ! 2) = 3
      \<and> threeSteps (challenges s ! 0)
      \<and> threeSteps (challenges s ! 1)
      \<and> threeSteps (challenges s ! 2)
      \<and> \<not> stepCompleted (steps (challenges s ! 0) ! 1)
      \<and> \<not> stepCompleted (steps (challenges s ! 0) ! 2)
      \<and> \<not> completed (challenges s ! 0)
      \<and> \<not> stepCompleted (steps (challenges s ! 2) ! 2)
      \<and> \<not> completed (challenges s ! 2)
      \<and> (case activeChallenge s of None \<Rightarrow> True | Some a \<Rightarrow> a < 3)
      \<and> \<not> list_ex isBench (sceneObjects s))"

chapter \<open>Properties\<close>

section \<open>Player movement and collision\<close>

lemma clamp_range: "- maxDistance \<le> clamp c \<and> clamp c \<le> maxDistance"
  by (simp add: clamp_def maxDistance_def)

lemma clamp_id: "- maxDistance \<le> c \<Longrightarrow> c \<le> maxDistance \<Longrightarrow> clamp c = c"
  by (simp add: clamp_def)

lemma updatePlayer_inBounds: "inBounds (playerPosition (updatePlayer stores scene ks pl))"
  by (simp add: updatePlayer_def inBounds_def Let_def clamp_range)

lemma setupPlayer_inBounds: "inBounds (playerPosition setupPlayer)"
  by (simp add: setupPlayer_def inBounds_def vec_def maxDistance_def)

lemma runPlayer_inBounds:
  "inBounds (playerPosition pl) \<Longrightarrow> inBounds (playerPosition (runPlayer stores scene kss pl))"
  by (induction kss arbitrary: pl) (simp_all add: updatePlayer_inBounds)

lemma blocked_by_store:
  assumes "ob \<in> set stores" and "queryBox ob = Some b" and "intersectsBox b pb"
  shows "\<not> canMove stores scene pb"
proof -
  have "hitsStore pb ob" using assms(2,3) by (simp add: hitsStore_def)
  with assms(1) have "list_ex (hitsStore pb) stores" unfolding list_ex_iff by blast
  then show ?thesis by (simp add: canMove_def)
qed

lemma blocked_by_object:
  assumes "ob \<in> set (traverse scene)" and "\<not> isStore ob"
    and "queryBox ob = Some b" and "intersectsBox b pb"
  shows "\<not> canMove stores scene pb"
proof -
  have "hitsObject pb ob" using assms(2,3,4) by (simp add: hitsObject_def)
  with assms(1) have "list_ex (hitsObject pb) (traverse scene)" unfolding list_ex_iff by blast
  then show ?thesis by (simp add: canMove_def)
qed

lemma rejected_move_keeps_position:
  assumes "\<not> canMove stores scene (playerBox ks pl)" and "inBounds (playerPosition pl)"
  shows "playerPosition (updatePlayer stores scene ks pl) = playerPosition pl"
  using assms by (simp add: updatePlayer_def inBounds_def clamp_id)

section \<open>Refused moves and the world boundary\<close>

text \<open>
  A move is refused when the footprint of the candidate position intersects the box
  the query computes for a collider it consults: the collider translated by the
  \<open>position\<close> field of its owner. The position is then what it was; the move is taken
  whole or not at all.
\<close>

lemma query_box_hit_refuses_move:
  assumes "registered stores scene ob"
    and "queryBox ob = Some b"
    and "intersectsBox b (playerBox ks (runPlayer stores scene kss setupPlayer))"
  shows "playerPosition (updatePlayer stores scene ks (runPlayer stores scene kss setupPlayer))
           = playerPosition (runPlayer stores scene kss setupPlayer)"
proof -
  let ?pl = "runPlayer stores scene kss setupPlayer"
  have bounds: "inBounds (playerPosition ?pl)"
    by (rule runPlayer_inBounds) (rule setupPlayer_inBounds)
  from assms(1) have "\<not> canMove stores scene (playerBox ks ?pl)"
    unfolding registered_def
  proof
    assume "ob \<in> set stores"
    then show ?thesis using assms(2,3) by (rule blocked_by_store)
  next
    assume "ob \<in> set (traverse scene) \<and> \<not> isStore ob"
    then have "ob \<in> set (traverse scene)" and "\<not> isStore ob" by simp_all
    then show ?thesis using assms(2,3) by (rule blocked_by_object)
  qed
  then show ?thesis using bounds by (rule rejected_move_keeps_position)
qed

lemma playerBox_forward_start:
  "playerBox keysForward setupPlayer
     = box (vec (-38.2) (-0.9) (-27.95)) (vec (-37.8) 0.9 (-27.55))"
  by (simp add: playerBox_def nextPosition_def playerVelocity_def turned_def keysForward_def
      setupPlayer_def applyAxisAngleY_def vec_def vadd_def setFromCenterAndSize_def
      playerSize_def moveSpeed_def box_def)

text \<open>
  C3. After every frame the player's two horizontal coordinates lie in the square
  from -95 to 95, whether the move was taken or refused, and from any position.
\<close>

theorem boundary_containment:
  "- 95 \<le> vx (playerPosition (updatePlayer stores scene ks pl))
   \<and> vx (playerPosition (updatePlayer stores scene ks pl)) \<le> 95
   \<and> - 95 \<le> vz (playerPosition (updatePlayer stores scene ks pl))
   \<and> vz (playerPosition (updatePlayer stores scene ks pl)) \<le> 95"
  using updatePlayer_inBounds [of stores scene ks pl]
  by (simp add: inBounds_def maxDistance_def)

section \<open>Colliders of nested objects\<close>

lemmas geometry_defs = vec_def vadd_def box_def origin_def translate_def

lemma first_query_box:
  "hd (queryBoxes (gameScene rs others)) = box (vec (-3) 0 (-3)) (vec 3 8 3)"
  by (simp add: queryBoxes_def gameScene_def sceneChildren_def cityDistricts_def
      createArbourRoad_def createBritishHouse_def queryBox_def List.map_filter_simps
      geometry_defs)

lemma first_world_box:
  "hd (worldBoxes origin (gameScene rs others))
     = box (vec (-43) 0 (-33)) (vec (-37) 8 (-27))"
  by (simp add: gameScene_def sceneChildren_def cityDistricts_def createArbourRoad_def
      createBritishHouse_def geometry_defs)

lemma first_step_taken:
  "playerPosition (updatePlayer cityStores (gameScene sampleTreeDraws []) keysForward setupPlayer)
     = vec (-38) 0 (-27.75)"
  unfolding updatePlayer_def playerBox_forward_start
  by (simp add: canMove_def gameScene_def sceneChildren_def cityDistricts_def
      createArbourRoad_def createBritishHouse_def queryBox_def hitsStore_def hitsObject_def
      cityStores_def createStore_def createPark_def benchPositions_def parkBench_def
      parkTree_def createTree_def sampleTreeDraws_def createDepartmentStore_def
      createShopStreet_def plainAt_def intersectsBox_def nextPosition_def
      playerVelocity_def turned_def keysForward_def setupPlayer_def applyAxisAngleY_def
      moveSpeed_def clamp_def maxDistance_def geometry_defs)

lemma beanHouse_registered: "registered cityStores (gameScene rs others) beanHouse"
  by (simp add: registered_def beanHouse_def gameScene_def sceneChildren_def
      cityDistricts_def createArbourRoad_def createBritishHouse_def geometry_defs)

lemma beanHouse_world_collider:
  "(beanHouse, box (vec (-43) 0 (-33)) (vec (-37) 8 (-27)))
     \<in> set (worldColliders origin (gameScene rs others))"
  by (simp add: beanHouse_def gameScene_def sceneChildren_def cityDistricts_def
      createArbourRoad_def createBritishHouse_def geometry_defs)

lemma footprint_in_beanHouse:
  "intersectsBox (box (vec (-43) 0 (-33)) (vec (-37) 8 (-27)))
     (playerBox keysForward setupPlayer)"
  unfolding playerBox_forward_start by (simp add: intersectsBox_def box_def vec_def)

text \<open>
  C1. The property fails for a collider inside a group. Mr. Bean's house is a registered
  collider: the traversal of the scene visits it and it is not a store. In the world
  its box runs from (-43, 0, -33) to (-37, 8, -27). The player starts at (-38, 0, -28);
  with W held, the footprint of the candidate position (-38, 0, -27.75) intersects that
  box, and yet the frame moves the player there. What the resolver does guarantee is
  lemma \<open>query_box_hit_refuses_move\<close>, for the box it computes from the owner's
  \<open>position\<close> field.
\<close>

theorem footprint_in_house_move_accepted:
  "registered cityStores (gameScene sampleTreeDraws []) beanHouse
   \<and> (beanHouse, box (vec (-43) 0 (-33)) (vec (-37) 8 (-27)))
        \<in> set (worldColliders origin (gameScene sampleTreeDraws []))
   \<and> intersectsBox (box (vec (-43) 0 (-33)) (vec (-37) 8 (-27)))
        (playerBox keysForward setupPlayer)
   \<and> playerPosition
        (updatePlayer cityStores (gameScene sampleTreeDraws []) keysForward setupPlayer)
       = vec (-38) 0 (-27.75)
   \<and> playerPosition
        (updatePlayer cityStores (gameScene sampleTreeDraws []) keysForward setupPlayer)
       \<noteq> playerPosition setupPlayer"
proof -
  have "vec (-38) 0 (-27.75) \<noteq> playerPosition setupPlayer"
    by (simp add: setupPlayer_def vec_def)
  then show ?thesis
    by (simp only: beanHouse_registered beanHouse_world_collider footprint_in_beanHouse
        first_step_taken simp_thms)
qed

text \<open>
  C2. The box a query uses is the collider translated by the owner's \<open>position\<close>
  field, recomputed at every query. For an object inside a group that is not where the
  object is in the world: in the game's scene the first collider the traversal meets is
  that of Mr. Bean's house, inside the Arbour Road group. The query uses the box from
  (-3, 0, -3) to (3, 8, 3), while the house stands at (-40, 0, -30), where its box runs
  from (-43, 0, -33) to (-37, 8, -27). The player starts inside that box, and its first
  step forward, whose footprint intersects it, is taken.
\<close>

theorem nested_house_box_not_in_world_space:
  "hd (queryBoxes (gameScene sampleTreeDraws [])) = box (vec (-3) 0 (-3)) (vec 3 8 3)
   \<and> hd (worldBoxes origin (gameScene sampleTreeDraws []))
       = box (vec (-43) 0 (-33)) (vec (-37) 8 (-27))
   \<and> intersectsBox (box (vec (-43) 0 (-33)) (vec (-37) 8 (-27)))
        (playerBox keysForward setupPlayer)
   \<and> playerPosition
        (updatePlayer cityStores (gameScene sampleTreeDraws []) keysForward setupPlayer)
       = vec (-38) 0 (-27.75)"
proof -
  have "intersectsBox (box (vec (-43) 0 (-33)) (vec (-37) 8 (-27)))
          (playerBox keysForward setupPlayer)"
    unfolding playerBox_forward_start by (simp add: intersectsBox_def box_def vec_def)
  then show ?thesis
    by (simp only: first_query_box first_world_box first_step_taken simp_thms)
qed

text \<open>
  The benches and trees of the park are translated twice: once when \<open>createPark\<close>
  builds the collider, and again by the query. The bench at (-15, 0, -15) of the park,
  itself at (0, 0, 30), is queried with a box around (-30, 0, -30).
\<close>

lemma park_bench_box_translated_twice:
  "queryBox (parkBench (vec (-15) 0 (-15)))
     = Some (box (vec (-31) 0 (-30.3)) (vec (-29) 0.8 (-29.7)))"
  by (simp add: queryBox_def parkBench_def geometry_defs)

section \<open>Main characters: wandering inside a radius\<close>

lemma distanceTo_less_iff:
  assumes "0 \<le> d"
  shows "distanceTo a b < d \<longleftrightarrow> distanceToSquared a b < d * d"
proof -
  have "sqrt (d * d) = d" using assms by simp
  then have "distanceTo a b < d \<longleftrightarrow> sqrt (distanceToSquared a b) < sqrt (d * d)"
    by (simp add: distanceTo_def)
  then show ?thesis by (simp only: real_sqrt_less_iff)
qed

lemma distanceTo_le_iff:
  assumes "0 \<le> d"
  shows "distanceTo a b \<le> d \<longleftrightarrow> distanceToSquared a b \<le> d * d"
proof -
  have "sqrt (d * d) = d" using assms by simp
  then have "distanceTo a b \<le> d \<longleftrightarrow> sqrt (distanceToSquared a b) \<le> sqrt (d * d)"
    by (simp add: distanceTo_def)
  then show ?thesis by (simp only: real_sqrt_le_iff)
qed









text \<open>
  The heading the redirect sets does point at the anchor: its cosine and sine are the
  normalised offsets from the character to the anchor.
\<close>

lemma cos_sin_arctan_div:
  assumes "0 < x"
  shows "cos (arctan (y / x)) = x / sqrt (x * x + y * y)"
    and "sin (arctan (y / x)) = y / sqrt (x * x + y * y)"
proof -
  have s: "sqrt (1 + (y / x)\<^sup>2) = sqrt (x * x + y * y) / x"
  proof -
    have "1 + (y / x)\<^sup>2 = (x * x + y * y) / (x * x)"
      using assms by (simp add: power2_eq_square field_simps)
    then have "sqrt (1 + (y / x)\<^sup>2) = sqrt (x * x + y * y) / sqrt (x * x)"
      by (simp add: real_sqrt_divide)
    then show ?thesis using assms by simp
  qed
  have pos: "0 < sqrt (x * x + y * y)"
    using assms by (simp add: add_pos_nonneg)
  show "cos (arctan (y / x)) = x / sqrt (x * x + y * y)"
    using assms pos by (simp add: cos_arctan s)
  show "sin (arctan (y / x)) = y / sqrt (x * x + y * y)"
    using assms pos by (simp add: sin_arctan s)
qed

lemma atan2_points_at:
  assumes "x \<noteq> 0 \<or> y \<noteq> 0"
  shows "cos (atan2 y x) = x / sqrt (x * x + y * y)
         \<and> sin (atan2 y x) = y / sqrt (x * x + y * y)"
proof -
  consider "0 < x" | "x < 0" | "x = 0" "0 < y" | "x = 0" "y < 0"
    using assms by linarith
  then show ?thesis
  proof cases
    case 1
    then show ?thesis by (simp add: atan2_def cos_sin_arctan_div)
  next
    case 2
    then have p: "0 < - x" by simp
    have e: "y / x = - (y / (- x))" by simp
    have c: "cos (arctan (y / (- x))) = (- x) / sqrt (x * x + y * y)"
      and s: "sin (arctan (y / (- x))) = y / sqrt (x * x + y * y)"
      using cos_sin_arctan_div [OF p, of y] by simp_all
    have "arctan (y / x) = - arctan (y / (- x))"
      by (subst e) (simp only: arctan_minus)
    then show ?thesis using 2 c s
      by (simp add: atan2_def cos_add sin_add cos_diff sin_diff)
  next
    case 3
    then show ?thesis by (simp add: atan2_def)
  next
    case 4
    then have "sqrt (y * y) = - y" by (simp add: real_sqrt_mult_self)
    then show ?thesis using 4 by (simp add: atan2_def)
  qed
qed


lemma wicketNearEdge_inside:
  "distanceTo (npcPosition wicketNearEdge) (originalPosition wicketNearEdge) \<le> 5"
  by (simp add: distanceTo_le_iff) (simp add: distanceToSquared_def wicketNearEdge_def vec_def)




section \<open>Free-text dialogue\<close>

subsection \<open>The keyword tables\<close>

lemma getMrsWicketResponse_table:
  "getMrsWicketResponse m = firstMatch mrsWicketTable (fallbackOf MrsWicket) m"
  by (simp add: getMrsWicketResponse_def firstMatch_def mrsWicketTable_def rowMatches_def)

lemma getIrmaResponse_table:
  "getIrmaResponse m = firstMatch irmaTable (fallbackOf IrmaGobb) m"
  by (simp add: getIrmaResponse_def firstMatch_def irmaTable_def rowMatches_def)

lemma getRupertResponse_table:
  "getRupertResponse m = firstMatch rupertTable (fallbackOf Rupert) m"
  by (simp add: getRupertResponse_def firstMatch_def rupertTable_def rowMatches_def)

lemma getGenericResponse_table:
  "getGenericResponse m = firstMatch genericTable (fallbackOf Generic) m"
  by (simp add: getGenericResponse_def firstMatch_def genericTable_def rowMatches_def)

lemma playerMessageResponse_table:
  "playerMessageResponse message npc
     = firstMatch (tableOf (identityOf npc)) (fallbackOf (identityOf npc)) (toLowerCase message)"
  by (simp add: playerMessageResponse_def identityOf_def Let_def
      getMrsWicketResponse_table getIrmaResponse_table getRupertResponse_table
      getGenericResponse_table split: option.split)

lemma firstMatch_first:
  assumes "i < length table" and "rowMatches m (table ! i)"
    and "\<forall>j<i. \<not> rowMatches m (table ! j)"
  shows "firstMatch table fallback m = snd (table ! i)"
proof -
  have "find (rowMatches m) table = Some (table ! i)"
    using assms by (auto simp: find_Some_iff)
  then show ?thesis by (simp add: firstMatch_def)
qed

lemma firstMatch_none:
  assumes "\<forall>j<length table. \<not> rowMatches m (table ! j)"
  shows "firstMatch table fallback m = fallback"
proof -
  have "find (rowMatches m) table = None"
    using assms by (auto simp: find_None_iff in_set_conv_nth)
  then show ?thesis by (simp add: firstMatch_def)
qed

lemma responses_nonempty:
  "getMrsWicketResponse m \<noteq> []" "getIrmaResponse m \<noteq> []"
  "getRupertResponse m \<noteq> []" "getGenericResponse m \<noteq> []"
  by (simp_all add: getMrsWicketResponse_def getIrmaResponse_def getRupertResponse_def
      getGenericResponse_def)

text \<open>
  C8. Whoever the NPC is and whatever the message, the response is a non-empty string;
  it is the response of the first row of that character's table with a keyword in the
  lower-cased message, and the character's default line when no row has one.
\<close>

theorem dialogue_response_total_first_match:
  "playerMessageResponse message npc \<noteq> []
   \<and> (i < length (tableOf (identityOf npc))
        \<and> rowMatches (toLowerCase message) (tableOf (identityOf npc) ! i)
        \<and> (\<forall>j<i. \<not> rowMatches (toLowerCase message) (tableOf (identityOf npc) ! j))
      \<longrightarrow> playerMessageResponse message npc = snd (tableOf (identityOf npc) ! i))
   \<and> ((\<forall>j<length (tableOf (identityOf npc)).
          \<not> rowMatches (toLowerCase message) (tableOf (identityOf npc) ! j))
      \<longrightarrow> playerMessageResponse message npc = fallbackOf (identityOf npc))"
proof -
  have "playerMessageResponse message npc \<noteq> []"
    by (simp add: playerMessageResponse_def Let_def responses_nonempty split: option.split)
  then show ?thesis
    by (simp add: playerMessageResponse_table firstMatch_first firstMatch_none)
qed

lemma lower_sample: "toLowerCase ''Hi! The RENT and my cat'' = ''hi! the rent and my cat''"
  by code_simp

theorem dialogue_response_total_first_match_witness:
  "rowMatches (toLowerCase ''Hi! The RENT and my cat'') (mrsWicketTable ! 0)
   \<and> rowMatches (toLowerCase ''Hi! The RENT and my cat'') (mrsWicketTable ! 1)
   \<and> rowMatches (toLowerCase ''Hi! The RENT and my cat'') (mrsWicketTable ! 3)
   \<and> playerMessageResponse ''Hi! The RENT and my cat'' (speakerOf wicketConfig)
       = ''Yes, yes, the rent! It's due on Friday, don't forget!''
   \<and> \<not> list_ex (rowMatches (toLowerCase '''')) genericTable
   \<and> playerMessageResponse '''' None = ''Oh, how interesting! Do tell me more about that.''"
proof -
  have id: "identityOf (speakerOf wicketConfig) = MrsWicket" "identityOf None = Generic"
    by (simp_all add: identityOf_def speakerOf_def wicketConfig_def)
  have m0: "rowMatches (toLowerCase ''Hi! The RENT and my cat'') (mrsWicketTable ! 0)"
    and m1: "rowMatches (toLowerCase ''Hi! The RENT and my cat'') (mrsWicketTable ! 1)"
    and m3: "rowMatches (toLowerCase ''Hi! The RENT and my cat'') (mrsWicketTable ! 3)"
    unfolding lower_sample by (simp_all add: rowMatches_def mrsWicketTable_def)
  have "\<forall>row\<in>set genericTable. \<not> rowMatches (toLowerCase '''') row"
    by (simp add: toLowerCase_def rowMatches_def genericTable_def)
  then have none: "\<forall>j<length genericTable. \<not> rowMatches (toLowerCase '''') (genericTable ! j)"
    using nth_mem by blast
  have a: "playerMessageResponse ''Hi! The RENT and my cat'' (speakerOf wicketConfig)
             = snd (mrsWicketTable ! 0)"
    using dialogue_response_total_first_match
      [of "''Hi! The RENT and my cat''" "speakerOf wicketConfig" 0] m0
    by (simp add: id mrsWicketTable_def)
  have b: "playerMessageResponse '''' None = fallbackOf Generic"
    using dialogue_response_total_first_match [of "''''" None 0] none
    by (simp add: id)
  have nomatch: "\<not> list_ex (rowMatches (toLowerCase '''')) genericTable"
    by (simp add: toLowerCase_def rowMatches_def genericTable_def)
  show ?thesis using m0 m1 m3 nomatch a b by (simp add: mrsWicketTable_def)
qed

section \<open>Challenges\<close>

subsection \<open>What a progress check can change\<close>

lemma showDialog_keeps [simp]:
  "challenges (showDialog npc s) = challenges s"
  "activeChallenge (showDialog npc s) = activeChallenge s"
  "sceneObjects (showDialog npc s) = sceneObjects s"
  "dialogElement (showDialog npc s) = dialogElement s"
  by (simp_all add: showDialog_def Let_def)

lemma hideDialog_keeps [simp]:
  "challenges (hideDialog s) = challenges s"
  "activeChallenge (hideDialog s) = activeChallenge s"
  "sceneObjects (hideDialog s) = sceneObjects s"
  "dialogElement (hideDialog s) = dialogElement s"
  by (simp_all add: hideDialog_def)

lemma branch_Inr_iff:
  "branch cnd yes no = Inr s' \<longleftrightarrow> (cnd = Inr True \<and> yes = Inr s') \<or> (cnd = Inr False \<and> no = Inr s')"
  by (cases "(cnd, yes, no)" rule: branch.cases) auto

lemma andAlso_Inr_iff:
  "andAlso x y = Inr b \<longleftrightarrow> (x = Inr False \<and> \<not> b) \<or> (x = Inr True \<and> y = Inr b)"
  by (cases "(x, y)" rule: andAlso.cases) auto

lemma negated_Inr_iff: "negated x = Inr b \<longleftrightarrow> x = Inr (\<not> b)"
  by (cases x) auto

lemma andThen_Inr_iff: "andThen x f = Inr s' \<longleftrightarrow> (\<exists>s1. x = Inr s1 \<and> s' = f s1)"
  by (cases x) auto

lemma stepDone_Inr_iff:
  "stepDone c k = Inr b \<longleftrightarrow> k < length (steps c) \<and> b = stepCompleted (steps c ! k)"
  by (auto simp: stepDone_def)

lemmas outcome_iffs = branch_Inr_iff andAlso_Inr_iff negated_Inr_iff andThen_Inr_iff stepDone_Inr_iff

lemma marked_refl: "activeChallenge s = Some a \<Longrightarrow> marked a k s s"
  by (simp add: marked_def sameOthers_def)

lemma ucp_marked:
  assumes "activeChallenge s = Some a" and "a < length (challenges s)"
    and "updateChallengeProgress k s = Inr s'"
  shows "marked a k s s'"
  using assms
  by (auto simp: updateChallengeProgress_def marked_def sameOthers_def stepDone_def markStep_def
      Let_def split: if_splits bool.splits)

lemma marked_showDialog: "marked a k s s1 \<Longrightarrow> marked a k s (showDialog n s1)"
  by (simp add: marked_def sameOthers_def)

lemma marked_completeChallenge:
  assumes "marked a k s s1" and "a < length (challenges s)"
  shows "marked a k s (completeChallenge s1)"
  using assms
  by (auto simp: marked_def sameOthers_def completeChallenge_def Let_def split: option.splits)

text \<open>The ways each challenge's progress check can return.\<close>

lemma findTeddy_cases:
  assumes "findTeddy nm pos c s = Inr s'"
  shows "(nm = Some ''Mrs. Wicket'' \<and> updateChallengeProgress 0 s = Inr s')
     \<or> (0 < length (steps c) \<and> stepCompleted (steps c ! 0) \<and> nearBench pos (sceneObjects s)
         \<and> (\<exists>s1 n. updateChallengeProgress 1 s = Inr s1 \<and> s' = showDialog n s1))
     \<or> (1 < length (steps c) \<and> stepCompleted (steps c ! 1)
         \<and> (\<exists>s1. updateChallengeProgress 2 s = Inr s1 \<and> s' = completeChallenge s1))
     \<or> s' = s"
  using assms unfolding findTeddy_def
  by (auto simp: outcome_iffs split: if_splits)

lemma lateForAppointment_cases:
  assumes "lateForAppointment nm pos c s = Inr s'"
  shows "(\<exists>s1 n. updateChallengeProgress 0 s = Inr s1 \<and> s' = showDialog n s1)
     \<or> (0 < length (steps c) \<and> stepCompleted (steps c ! 0)
         \<and> (\<exists>s1 n. updateChallengeProgress 1 s = Inr s1 \<and> s' = showDialog n s1))
     \<or> (1 < length (steps c) \<and> stepCompleted (steps c ! 1)
         \<and> (\<exists>s1. updateChallengeProgress 2 s = Inr s1 \<and> s' = completeChallenge s1))
     \<or> s' = s"
  using assms unfolding lateForAppointment_def
  by (auto simp: outcome_iffs split: if_splits)

lemma christmasShopping_cases:
  assumes "christmasShopping nm pos c s = Inr s'"
  shows "(\<exists>s1 n. updateChallengeProgress 0 s = Inr s1 \<and> s' = showDialog n s1)
     \<or> (0 < length (steps c) \<and> stepCompleted (steps c ! 0)
         \<and> (\<exists>s1 n. updateChallengeProgress 1 s = Inr s1 \<and> s' = showDialog n s1))
     \<or> (1 < length (steps c) \<and> stepCompleted (steps c ! 1) \<and> nm = Some ''Store Clerk''
         \<and> (\<exists>s1. updateChallengeProgress 2 s = Inr s1 \<and> s' = completeChallenge s1))
     \<or> s' = s"
  using assms unfolding christmasShopping_def
  by (auto simp: outcome_iffs split: if_splits)

lemma marked_ordered:
  assumes "marked a k s s'"
    and "k = 0 \<or> stepCompleted (steps (challenges s ! a) ! (k - 1))"
  shows "ordered a s s'"
  using assms by (auto simp: marked_def ordered_def nth_list_update split: if_splits)

lemma ordered_refl: "activeChallenge s = Some a \<Longrightarrow> ordered a s s"
  by (simp add: ordered_def sameOthers_def)

lemma findTeddy_ordered:
  assumes "activeChallenge s = Some a" and "a < length (challenges s)"
    and "findTeddy nm pos (challenges s ! a) s = Inr s'"
  shows "ordered a s s'"
  using findTeddy_cases [OF assms(3)]
proof (elim disjE conjE exE)
  assume "updateChallengeProgress 0 s = Inr s'"
  then show ?thesis using assms(1,2) by (blast intro: marked_ordered ucp_marked)
next
  fix s1 n
  assume "stepCompleted (steps (challenges s ! a) ! 0)"
    and "updateChallengeProgress 1 s = Inr s1" and "s' = showDialog n s1"
  then show ?thesis using assms(1,2)
    by (auto intro!: marked_ordered [where k = 1] marked_showDialog ucp_marked)
next
  fix s1
  assume "stepCompleted (steps (challenges s ! a) ! 1)"
    and "updateChallengeProgress 2 s = Inr s1" and "s' = completeChallenge s1"
  then show ?thesis using assms(1,2)
    by (auto intro!: marked_ordered [where k = 2] marked_completeChallenge ucp_marked)
next
  assume "s' = s"
  then show ?thesis using assms(1) by (simp add: ordered_refl)
qed

lemma lateForAppointment_ordered:
  assumes "activeChallenge s = Some a" and "a < length (challenges s)"
    and "lateForAppointment nm pos (challenges s ! a) s = Inr s'"
  shows "ordered a s s'"
  using lateForAppointment_cases [OF assms(3)]
proof (elim disjE conjE exE)
  fix s1 n
  assume "updateChallengeProgress 0 s = Inr s1" and "s' = showDialog n s1"
  then show ?thesis using assms(1,2)
    by (auto intro!: marked_ordered [where k = 0] marked_showDialog ucp_marked)
next
  fix s1 n
  assume "stepCompleted (steps (challenges s ! a) ! 0)"
    and "updateChallengeProgress 1 s = Inr s1" and "s' = showDialog n s1"
  then show ?thesis using assms(1,2)
    by (auto intro!: marked_ordered [where k = 1] marked_showDialog ucp_marked)
next
  fix s1
  assume "stepCompleted (steps (challenges s ! a) ! 1)"
    and "updateChallengeProgress 2 s = Inr s1" and "s' = completeChallenge s1"
  then show ?thesis using assms(1,2)
    by (auto intro!: marked_ordered [where k = 2] marked_completeChallenge ucp_marked)
next
  assume "s' = s"
  then show ?thesis using assms(1) by (simp add: ordered_refl)
qed

lemma christmasShopping_ordered:
  assumes "activeChallenge s = Some a" and "a < length (challenges s)"
    and "christmasShopping nm pos (challenges s ! a) s = Inr s'"
  shows "ordered a s s'"
  using christmasShopping_cases [OF assms(3)]
proof (elim disjE conjE exE)
  fix s1 n
  assume "updateChallengeProgress 0 s = Inr s1" and "s' = showDialog n s1"
  then show ?thesis using assms(1,2)
    by (auto intro!: marked_ordered [where k = 0] marked_showDialog ucp_marked)
next
  fix s1 n
  assume "stepCompleted (steps (challenges s ! a) ! 0)"
    and "updateChallengeProgress 1 s = Inr s1" and "s' = showDialog n s1"
  then show ?thesis using assms(1,2)
    by (auto intro!: marked_ordered [where k = 1] marked_showDialog ucp_marked)
next
  fix s1
  assume "stepCompleted (steps (challenges s ! a) ! 1)"
    and "updateChallengeProgress 2 s = Inr s1" and "s' = completeChallenge s1"
  then show ?thesis using assms(1,2)
    by (auto intro!: marked_ordered [where k = 2] marked_completeChallenge ucp_marked)
next
  assume "s' = s"
  then show ?thesis using assms(1) by (simp add: ordered_refl)
qed

lemma checkChallengeProgress_ordered:
  assumes "activeChallenge s = Some a" and "a < length (challenges s)"
    and "checkChallengeProgress npc pos s = Inr s'"
  shows "ordered a s s'"
proof (cases npc)
  case None
  then have "s' = s" using assms(1,3) by (simp add: checkChallengeProgress_def)
  then show ?thesis using assms(1) by (simp add: ordered_refl)
next
  case (Some ud)
  let ?c = "challenges s ! a"
  consider "challengeId ?c = 1" | "challengeId ?c = 2" | "challengeId ?c = 3"
    | "challengeId ?c \<noteq> 1" "challengeId ?c \<noteq> 2" "challengeId ?c \<noteq> 3"
    by blast
  then show ?thesis
  proof cases
    case 1
    then have "findTeddy (speakerName ud) pos ?c s = Inr s'"
      using assms(1,3) Some by (simp add: checkChallengeProgress_def)
    then show ?thesis using assms(1,2) by (rule findTeddy_ordered [rotated 2])
  next
    case 2
    then have "lateForAppointment (speakerName ud) pos ?c s = Inr s'"
      using assms(1,3) Some by (simp add: checkChallengeProgress_def)
    then show ?thesis using assms(1,2) by (rule lateForAppointment_ordered [rotated 2])
  next
    case 3
    then have "christmasShopping (speakerName ud) pos ?c s = Inr s'"
      using assms(1,3) Some by (simp add: checkChallengeProgress_def)
    then show ?thesis using assms(1,2) by (rule christmasShopping_ordered [rotated 2])
  next
    case 4
    then have "s' = s" using assms(1,3) Some by (simp add: checkChallengeProgress_def)
    then show ?thesis using assms(1) by (simp add: ordered_refl)
  qed
qed

lemma checkChallengeProgress_inactive:
  "activeChallenge s = None \<Longrightarrow> checkChallengeProgress npc pos s = Inr s"
  by (simp add: checkChallengeProgress_def)

text \<open>
  C5. Whatever the state and whoever the player talks to, the interaction handler's
  progress check changes no challenge but the active one (none at all when no challenge
  is active), and a step it newly completes is step 0 or has a completed predecessor:
  step \<open>n\<close> is never marked completed while step \<open>n - 1\<close> is incomplete.
\<close>

theorem step_ordering:
  assumes "applyEvent (TalkTo npc playerPos) s = Inr s'"
    and "case activeChallenge s of None \<Rightarrow> True | Some a \<Rightarrow> a < length (challenges s)"
  shows "length (challenges s') = length (challenges s)
     \<and> (\<forall>i<length (challenges s).
           (activeChallenge s \<noteq> Some i \<longrightarrow> challenges s' ! i = challenges s ! i)
           \<and> length (steps (challenges s' ! i)) = length (steps (challenges s ! i))
           \<and> (\<forall>n<length (steps (challenges s ! i)).
                 0 < n \<and> \<not> stepCompleted (steps (challenges s ! i) ! n)
                   \<and> stepCompleted (steps (challenges s' ! i) ! n)
                 \<longrightarrow> stepCompleted (steps (challenges s ! i) ! (n - 1))))"
proof (cases "activeChallenge s")
  case None
  then have "s' = showDialog npc s"
    using assms(1) by (simp add: checkChallengeProgress_inactive)
  then show ?thesis by simp
next
  case (Some a)
  then have a: "a < length (challenges s)" using assms(2) by simp
  have "ordered a (showDialog npc s) s'"
    using assms(1) Some a by (intro checkChallengeProgress_ordered) simp_all
  then have o: "sameOthers a (showDialog npc s) s'"
    and n: "\<forall>n<length (steps (challenges s ! a)).
            0 < n \<and> \<not> stepCompleted (steps (challenges s ! a) ! n)
              \<and> stepCompleted (steps (challenges s' ! a) ! n)
            \<longrightarrow> stepCompleted (steps (challenges s ! a) ! (n - 1))"
    by (simp_all add: ordered_def)
  show ?thesis
  proof (intro conjI allI impI)
    show "length (challenges s') = length (challenges s)"
      using o by (simp add: sameOthers_def)
  next
    fix i assume "i < length (challenges s)" and "activeChallenge s \<noteq> Some i"
    then show "challenges s' ! i = challenges s ! i"
      using o Some by (simp add: sameOthers_def)
  next
    fix i assume i: "i < length (challenges s)"
    show "length (steps (challenges s' ! i)) = length (steps (challenges s ! i))"
      using o i by (cases "i = a") (simp_all add: sameOthers_def)
  next
    fix i n
    assume i: "i < length (challenges s)" and "n < length (steps (challenges s ! i))"
      and "0 < n \<and> \<not> stepCompleted (steps (challenges s ! i) ! n)
             \<and> stepCompleted (steps (challenges s' ! i) ! n)"
    then show "stepCompleted (steps (challenges s ! i) ! (n - 1))"
      using o n by (cases "i = a") (auto simp: sameOthers_def)
  qed
qed

subsection \<open>Evaluating the catalogue and the notices\<close>

lemma catalog_selectors:
  "challengeId findTeddyChallenge = 1" "completed findTeddyChallenge = False"
  "steps findTeddyChallenge = [teddyStep0, teddyStep1, teddyStep2]"
  "challengeId lateForAppointmentChallenge = 2" "completed lateForAppointmentChallenge = False"
  "steps lateForAppointmentChallenge = [lateStep0, lateStep1, lateStep2]"
  "challengeId christmasShoppingChallenge = 3" "completed christmasShoppingChallenge = False"
  "steps christmasShoppingChallenge = [shoppingStep0, shoppingStep1, shoppingStep2]"
  by (simp_all add: findTeddyChallenge_def lateForAppointmentChallenge_def
      christmasShoppingChallenge_def)

lemma step_selectors:
  "stepCompleted teddyStep0 = False" "stepCompleted teddyStep1 = False"
  "stepCompleted teddyStep2 = False" "stepCompleted lateStep0 = False"
  "stepCompleted lateStep1 = False" "stepCompleted lateStep2 = False"
  "stepCompleted shoppingStep0 = False" "stepCompleted shoppingStep1 = False"
  "stepCompleted shoppingStep2 = False"
  by (simp_all add: teddyStep0_def teddyStep1_def teddyStep2_def lateStep0_def lateStep1_def
      lateStep2_def shoppingStep0_def shoppingStep1_def shoppingStep2_def)

lemma config_names:
  "cfgName wicketConfig = ''Mrs. Wicket''" "cfgName irmaConfig = ''Irma Gobb''"
  "cfgName rupertConfig = ''Rupert''"
  by (simp_all add: wicketConfig_def irmaConfig_def rupertConfig_def)

lemma dialogFor_notice: "dialogFor (notice heading lines) r = citizenLine r"
  by (simp add: dialogFor_def notice_def citizenLine_def)

lemma dialogFor_notices:
  "dialogFor alreadyCompletedNotice r = citizenLine r"
  "dialogFor wellDoneNotice r = citizenLine r"
  "dialogFor teddyNoteNotice r = citizenLine r"
  "dialogFor brokenCarNotice r = citizenLine r"
  "dialogFor rupertHelpsNotice r = citizenLine r"
  "dialogFor irmaWishNotice r = citizenLine r"
  "dialogFor teddySaleNotice r = citizenLine r"
  by (simp_all add: alreadyCompletedNotice_def wellDoneNotice_def teddyNoteNotice_def
      brokenCarNotice_def rupertHelpsNotice_def irmaWishNotice_def teddySaleNotice_def
      dialogFor_notice)

lemma dialogFor_userData:
  "dialogFor (Some \<lparr>isMainNPC = True, speakerName = Some n, dialogs = ds\<rparr>) r
     = (n, textContent (pickLine r ds))"
  "dialogFor (Some \<lparr>isMainNPC = False, speakerName = v, dialogs = ds\<rparr>) r = citizenLine r"
  by (simp_all add: dialogFor_def textContent_def citizenLine_def)

lemmas run_defs =
  startChallenge_def showDialog_def hideDialog_def checkChallengeProgress_def
  findTeddy_def lateForAppointment_def christmasShopping_def updateChallengeProgress_def
  completeChallenge_def stepDone_def markStep_def resetSteps_def newGame_def
  challengeCatalog_def nearBench_def nearDepartmentStore_def Let_def
  catalog_selectors step_selectors config_names dialogFor_notice dialogFor_notices
  dialogFor_userData speakerOf_def backgroundNPC_def
  distanceTo_less_iff distanceToSquared_def vec_def

lemma teddyStarted_facts:
  "activeChallenge teddyStarted = Some 0" "length (challenges teddyStarted) = 3"
  "map stepCompleted (steps (challenges teddyStarted ! 0)) = [False, False, False]"
  by (simp_all add: teddyStarted_def run_defs)

lemma teddyStarted_talk:
  "\<exists>s'. applyEvent (TalkTo (speakerOf wicketConfig) (vec (-42) 0 (-31))) teddyStarted = Inr s'
      \<and> map stepCompleted (steps (challenges s' ! 0)) = [True, False, False]"
  by (simp add: teddyStarted_def run_defs)

theorem step_ordering_witness:
  "\<exists>s'. applyEvent (TalkTo (speakerOf wicketConfig) (vec (-42) 0 (-31))) teddyStarted = Inr s'
      \<and> activeChallenge teddyStarted = Some 0
      \<and> length (challenges teddyStarted) = 3
      \<and> map stepCompleted (steps (challenges teddyStarted ! 0)) = [False, False, False]
      \<and> map stepCompleted (steps (challenges s' ! 0)) = [True, False, False]
      \<and> challenges s' ! 1 = challenges teddyStarted ! 1
      \<and> challenges s' ! 2 = challenges teddyStarted ! 2"
proof -
  obtain s' where ev: "applyEvent (TalkTo (speakerOf wicketConfig) (vec (-42) 0 (-31))) teddyStarted = Inr s'"
    and st: "map stepCompleted (steps (challenges s' ! 0)) = [True, False, False]"
    using teddyStarted_talk by (elim exE conjE)
  note f = teddyStarted_facts
  have v: "case activeChallenge teddyStarted of None \<Rightarrow> True
           | Some a \<Rightarrow> a < length (challenges teddyStarted)"
    by (simp add: f)
  have others: "i < length (challenges teddyStarted) \<Longrightarrow> activeChallenge teddyStarted \<noteq> Some i
      \<Longrightarrow> challenges s' ! i = challenges teddyStarted ! i" for i
    using step_ordering [OF ev v] by simp
  have c1: "challenges s' ! 1 = challenges teddyStarted ! 1"
    by (rule others) (simp_all add: f)
  have c2: "challenges s' ! 2 = challenges teddyStarted ! 2"
    by (rule others) (simp_all add: f)
  show ?thesis
    by (rule exI [of _ s']) (intro conjI ev f st c1 c2)
qed

section \<open>Completing a challenge\<close>

lemma lateRun_outcome:
  "\<exists>s. run lateRun (newGame objects rnd) = Inr s
       \<and> challenges s = lateDone \<and> activeChallenge s = None \<and> dialogElement s
       \<and> shownDialogs s =
           [citizenLine (rnd 0),
            (''Mrs. Wicket'', textContent (pickLine (rnd 1) (cfgDialogs wicketConfig))),
            citizenLine (rnd 2),
            (''Rupert'', textContent (pickLine (rnd 3) (cfgDialogs rupertConfig))),
            citizenLine (rnd 4),
            (''Irma Gobb'', textContent (pickLine (rnd 5) (cfgDialogs irmaConfig))),
            citizenLine (rnd 6)]"
  by (simp add: lateRun_def lateDone_def run_defs) (simp add: eval_nat_numeral)

subsection \<open>What does hold of step completion and of starting a challenge\<close>

lemma updateChallengeProgress_idempotent:
  assumes "updateChallengeProgress k s = Inr s1"
    and "case activeChallenge s of None \<Rightarrow> True | Some a \<Rightarrow> a < length (challenges s)"
  shows "updateChallengeProgress k s1 = Inr s1"
  using assms
  by (auto simp: updateChallengeProgress_def stepDone_def markStep_def Let_def
      split: option.splits if_splits bool.splits)

lemma findIndex_bound: "findIndex P xs = Some i \<Longrightarrow> i < length xs \<and> P (xs ! i)"
  by (induction xs arbitrary: i) (auto split: if_splits)

lemma startChallenge_switch:
  assumes "findIndex (\<lambda>c. challengeId c = cid) (challenges s) = Some i"
    and "\<not> completed (challenges s ! i)"
    and "activeChallenge s = Some a" and "a < length (challenges s)"
    and "challengeId (challenges s ! a) \<noteq> cid"
  shows "activeChallenge (startChallenge cid s) = Some i
     \<and> list_all (\<lambda>st. \<not> stepCompleted st) (steps (challenges (startChallenge cid s) ! a))
     \<and> completed (challenges (startChallenge cid s) ! a) = completed (challenges s ! a)"
  using assms
  by (simp add: startChallenge_def resetSteps_def Let_def list_all_iff)

lemma startChallenge_completed_keeps:
  assumes "findIndex (\<lambda>c. challengeId c = cid) (challenges s) = Some i"
    and "completed (challenges s ! i)"
  shows "challenges (startChallenge cid s) = challenges s
     \<and> activeChallenge (startChallenge cid s) = activeChallenge s"
  using assms by (simp add: startChallenge_def)

subsection \<open>What a completed challenge shows\<close>

lemma pickLine_cases:
  "textContent (pickLine r lines) = [] \<or> textContent (pickLine r lines) \<in> set lines"
  by (simp add: pickLine_def textContent_def Let_def)

lemma line_differs:
  assumes "t \<noteq> []" and "t \<notin> set lines"
  shows "textContent (pickLine r lines) \<noteq> t"
  using pickLine_cases [of r lines] assms by auto

lemma lines_differ:
  "snd (citizenLine r) \<noteq> lateReward"
  "textContent (pickLine r (cfgDialogs wicketConfig)) \<noteq> lateReward"
  "textContent (pickLine r (cfgDialogs irmaConfig)) \<noteq> lateReward"
  "textContent (pickLine r (cfgDialogs rupertConfig)) \<noteq> lateReward"
  "snd (citizenLine r) \<noteq> alreadyCompletedText"
  "textContent (pickLine r (cfgDialogs wicketConfig)) \<noteq> alreadyCompletedText"
  "textContent (pickLine r (cfgDialogs irmaConfig)) \<noteq> alreadyCompletedText"
  "textContent (pickLine r (cfgDialogs rupertConfig)) \<noteq> alreadyCompletedText"
  unfolding citizenLine_def snd_conv
  by (rule line_differs;
      simp add: lateReward_def alreadyCompletedText_def genericDialogs_def wicketConfig_def
        irmaConfig_def rupertConfig_def)+

lemma lateDone_1:
  "completed (lateDone ! 1)" "list_all stepCompleted (steps (lateDone ! 1))"
  "reward (lateDone ! 1) = lateReward"
  by (simp_all add: lateDone_def lateForAppointmentChallenge_def lateReward_def)

text \<open>
  C6. The step-completion operation is idempotent (lemma
  \<open>updateChallengeProgress_idempotent\<close> below), and completing the last step sets the
  challenge's \<open>completed\<close> flag and clears the active challenge. The reward text,
  however, is never surfaced: \<open>updateChallengeProgress\<close> has cleared the active
  challenge by the time \<open>completeChallenge\<close> runs, so \<open>completeChallenge\<close> returns
  at once, and \<open>showDialog\<close> shows a line of the generic pool for any object that is
  not a main character. After the session above, for any random draws, the reward of
  "Late for Appointment" is not among the dialogues shown.
\<close>

theorem reward_text_never_surfaced:
  "\<exists>s. run lateRun (newGame objects rnd) = Inr s
       \<and> list_all stepCompleted (steps (challenges s ! 1))
       \<and> completed (challenges s ! 1)
       \<and> activeChallenge s = None
       \<and> reward (challenges s ! 1) = ''You made it to the dentist! Only 30 minutes late...''
       \<and> count_list (map snd (shownDialogs s)) (reward (challenges s ! 1)) = 0"
proof -
  obtain s where r: "run lateRun (newGame objects rnd) = Inr s"
    and c: "challenges s = lateDone" and a: "activeChallenge s = None"
    and sh: "shownDialogs s =
           [citizenLine (rnd 0),
            (''Mrs. Wicket'', textContent (pickLine (rnd 1) (cfgDialogs wicketConfig))),
            citizenLine (rnd 2),
            (''Rupert'', textContent (pickLine (rnd 3) (cfgDialogs rupertConfig))),
            citizenLine (rnd 4),
            (''Irma Gobb'', textContent (pickLine (rnd 5) (cfgDialogs irmaConfig))),
            citizenLine (rnd 6)]"
    using lateRun_outcome [of objects rnd] by (elim exE conjE)
  have n: "count_list (map snd (shownDialogs s)) lateReward = 0"
    unfolding sh by (simp add: lines_differ)
  have p1: "list_all stepCompleted (steps (challenges s ! 1))"
    unfolding c by (rule lateDone_1)
  have p2: "completed (challenges s ! 1)"
    unfolding c by (rule lateDone_1)
  have p3: "reward (challenges s ! 1) = ''You made it to the dentist! Only 30 minutes late...''"
    unfolding c lateDone_1(3) by (rule lateReward_def)
  have p4: "count_list (map snd (shownDialogs s)) (reward (challenges s ! 1)) = 0"
    unfolding c lateDone_1(3) by (rule n)
  show ?thesis
    by (rule exI [of _ s]) (intro conjI r p1 p2 a p3 p4)
qed

lemma startChallenge_completed:
  assumes "findIndex (\<lambda>c. challengeId c = cid) (challenges s) = Some i"
    and "completed (challenges s ! i)"
  shows "startChallenge cid s = showDialog alreadyCompletedNotice s"
  using assms by (simp add: startChallenge_def)

lemma showDialog_shown:
  "dialogElement s \<Longrightarrow>
     dialogName (showDialog npc s) = fst (dialogFor npc (randomSource s (randomDraws s)))
     \<and> dialogMessage (showDialog npc s) = snd (dialogFor npc (randomSource s (randomDraws s)))
     \<and> shownDialogs (showDialog npc s)
         = shownDialogs s @ [dialogFor npc (randomSource s (randomDraws s))]"
  by (simp add: showDialog_def Let_def)

text \<open>
  C7. Starting a different, uncompleted challenge does switch the active challenge and
  reset the steps of the previous one (lemma \<open>startChallenge_switch\<close> below), and
  starting a completed challenge changes no challenge state. But the already-completed
  message is not surfaced: \<open>showDialog\<close> is handed an object without \<open>isMainNPC\<close>
  and shows "Citizen" with a line of the generic pool instead. After the session above,
  starting "Late for Appointment" again shows such a line, for any random draws.
\<close>

theorem already_completed_message_not_surfaced:
  "\<exists>s. run lateRun (newGame objects rnd) = Inr s
       \<and> completed (challenges s ! 1)
       \<and> challenges (startChallenge 2 s) = challenges s
       \<and> activeChallenge (startChallenge 2 s) = activeChallenge s
       \<and> dialogName (startChallenge 2 s) = ''Citizen''
       \<and> dialogMessage (startChallenge 2 s) \<noteq> ''You've already completed this challenge!''
       \<and> count_list (map snd (shownDialogs (startChallenge 2 s)))
            ''You've already completed this challenge!'' = 0"
proof -
  obtain s where r: "run lateRun (newGame objects rnd) = Inr s"
    and c: "challenges s = lateDone" and a: "activeChallenge s = None"
    and d: "dialogElement s"
    and sh: "shownDialogs s =
           [citizenLine (rnd 0),
            (''Mrs. Wicket'', textContent (pickLine (rnd 1) (cfgDialogs wicketConfig))),
            citizenLine (rnd 2),
            (''Rupert'', textContent (pickLine (rnd 3) (cfgDialogs rupertConfig))),
            citizenLine (rnd 4),
            (''Irma Gobb'', textContent (pickLine (rnd 5) (cfgDialogs irmaConfig))),
            citizenLine (rnd 6)]"
    using lateRun_outcome [of objects rnd] by (elim exE conjE)
  have f: "findIndex (\<lambda>c. challengeId c = 2) (challenges s) = Some 1"
    by (simp add: c lateDone_def catalog_selectors)
  have p2: "completed (challenges s ! 1)"
    unfolding c by (rule lateDone_1)
  have st: "startChallenge 2 s = showDialog alreadyCompletedNotice s"
    using f p2 by (rule startChallenge_completed)
  have n: "dialogName (startChallenge 2 s) = ''Citizen''"
    and m: "dialogMessage (startChallenge 2 s) \<noteq> alreadyCompletedText"
    and k: "count_list (map snd (shownDialogs (startChallenge 2 s))) alreadyCompletedText = 0"
    unfolding st using showDialog_shown [OF d, of alreadyCompletedNotice]
    by (simp_all add: dialogFor_notices sh lines_differ) (simp add: citizenLine_def)
  have q1: "challenges (startChallenge 2 s) = challenges s"
    and q2: "activeChallenge (startChallenge 2 s) = activeChallenge s"
    unfolding st by simp_all
  show ?thesis
    by (rule exI [of _ s])
       (intro conjI r p2 q1 q2 n m [unfolded alreadyCompletedText_def]
          k [unfolded alreadyCompletedText_def])
qed

section \<open>Which challenges can be completed\<close>

lemma townInvariant_showDialog [simp]: "townInvariant (showDialog npc s) = townInvariant s"
  by (simp add: townInvariant_def)

lemma townInvariant_hideDialog [simp]: "townInvariant (hideDialog s) = townInvariant s"
  by (simp add: townInvariant_def)

lemma not_all_done_2:
  "length xs = 3 \<Longrightarrow> \<not> stepCompleted (xs ! 2) \<Longrightarrow> k < 2 \<Longrightarrow> \<not> list_all stepCompleted (xs[k := y])"
  by (auto simp: list_all_length intro!: exI[of _ 2])

lemma not_all_done_1:
  "length xs = 3 \<Longrightarrow> \<not> stepCompleted (xs ! 1) \<Longrightarrow> \<not> list_all stepCompleted (xs[0 := y])"
  by (auto simp: list_all_length intro!: exI[of _ 1])

lemma nearBench_none: "\<not> list_ex isBench objs \<Longrightarrow> \<not> nearBench p objs"
  by (auto simp: nearBench_def list_ex_iff filter_empty_conv)

lemma ucp_inv_0:
  assumes "townInvariant s" "activeChallenge s = Some 0"
    "updateChallengeProgress 0 s = Inr s'"
  shows "townInvariant s'"
  using assms
  by (auto simp: updateChallengeProgress_def townInvariant_def stepDone_def markStep_def Let_def threeSteps_def
       not_all_done_1 split: if_splits bool.splits)

lemma ucp_inv_2:
  assumes "townInvariant s" "activeChallenge s = Some 2" "k < 2"
    "updateChallengeProgress k s = Inr s'"
  shows "townInvariant s'"
  using assms
  by (auto simp: updateChallengeProgress_def townInvariant_def stepDone_def markStep_def Let_def threeSteps_def
       not_all_done_2 split: if_splits bool.splits)

lemma ucp_inv_1:
  assumes "townInvariant s" "activeChallenge s = Some 1"
    "updateChallengeProgress k s = Inr s'"
  shows "townInvariant s' \<and> (activeChallenge s' = Some 1 \<or> activeChallenge s' = None)"
  using assms
  by (auto simp: updateChallengeProgress_def townInvariant_def stepDone_def markStep_def Let_def threeSteps_def
        split: if_splits bool.splits)

lemma completeChallenge_inv_1:
  assumes "townInvariant s" "activeChallenge s = Some 1 \<or> activeChallenge s = None"
  shows "townInvariant (completeChallenge s)"
  using assms
  by (auto simp: completeChallenge_def townInvariant_def Let_def threeSteps_def)

lemma findTeddy_inv:
  assumes "townInvariant s" and "activeChallenge s = Some 0"
    and "findTeddy nm pos (challenges s ! 0) s = Inr s'"
  shows "townInvariant s'"
  using findTeddy_cases [OF assms(3)]
proof (elim disjE conjE exE)
  assume "updateChallengeProgress 0 s = Inr s'"
  with assms(1,2) show ?thesis by (rule ucp_inv_0)
next
  assume "nearBench pos (sceneObjects s)"
  then show ?thesis using assms(1) by (simp add: townInvariant_def nearBench_none)
next
  assume "stepCompleted (steps (challenges s ! 0) ! 1)"
  then show ?thesis using assms(1) by (simp add: townInvariant_def)
next
  assume "s' = s"
  then show ?thesis using assms(1) by simp
qed

lemma lateForAppointment_inv:
  assumes "townInvariant s" and "activeChallenge s = Some 1"
    and "lateForAppointment nm pos (challenges s ! 1) s = Inr s'"
  shows "townInvariant s'"
  using lateForAppointment_cases [OF assms(3)]
proof (elim disjE conjE exE)
  fix s1 n
  assume "updateChallengeProgress 0 s = Inr s1" and "s' = showDialog n s1"
  then show ?thesis using ucp_inv_1 [OF assms(1,2)] by simp
next
  fix s1 n
  assume "updateChallengeProgress 1 s = Inr s1" and "s' = showDialog n s1"
  then show ?thesis using ucp_inv_1 [OF assms(1,2)] by simp
next
  fix s1
  assume "updateChallengeProgress 2 s = Inr s1" and "s' = completeChallenge s1"
  then show ?thesis using ucp_inv_1 [OF assms(1,2)] by (simp add: completeChallenge_inv_1)
next
  assume "s' = s"
  then show ?thesis using assms(1) by simp
qed

lemma christmasShopping_inv:
  assumes "townInvariant s" and "activeChallenge s = Some 2"
    and "nm \<noteq> Some ''Store Clerk''"
    and "christmasShopping nm pos (challenges s ! 2) s = Inr s'"
  shows "townInvariant s'"
  using christmasShopping_cases [OF assms(4)]
proof (elim disjE conjE exE)
  fix s1 n
  assume "updateChallengeProgress 0 s = Inr s1" and "s' = showDialog n s1"
  then show ?thesis using ucp_inv_2 [OF assms(1,2), of 0] by simp
next
  fix s1 n
  assume "updateChallengeProgress 1 s = Inr s1" and "s' = showDialog n s1"
  then show ?thesis using ucp_inv_2 [OF assms(1,2), of 1] by simp
next
  assume "nm = Some ''Store Clerk''"
  then show ?thesis using assms(3) by simp
next
  assume "s' = s"
  then show ?thesis using assms(1) by simp
qed

lemma town_names:
  assumes "Some ud \<in> set townSpeakers"
  shows "speakerName ud \<noteq> Some ''Store Clerk''"
  using assms
  by (auto simp: townSpeakers_def mainNPCConfigs_def speakerOf_def backgroundNPC_def config_names)

lemma checkChallengeProgress_inv:
  assumes "townInvariant s" and "npc \<in> set townSpeakers"
    and "checkChallengeProgress npc pos s = Inr s'"
  shows "townInvariant s'"
proof (cases "activeChallenge s")
  case None
  then show ?thesis using assms(1,3) by (simp add: checkChallengeProgress_inactive)
next
  case (Some a)
  show ?thesis
  proof (cases npc)
    case None
    then show ?thesis using assms(1,3) Some by (simp add: checkChallengeProgress_def)
  next
    case ud: (Some ud)
    have clerk: "speakerName ud \<noteq> Some ''Store Clerk''"
      using assms(2) ud by (simp add: town_names)
    have "a < 3" using assms(1) Some by (simp add: townInvariant_def)
    then consider "a = 0" | "a = 1" | "a = 2" by linarith
    then show ?thesis
    proof cases
      case 1
      then have act: "activeChallenge s = Some 0" using Some by simp
      have "findTeddy (speakerName ud) pos (challenges s ! 0) s = Inr s'"
        using assms(1,3) act ud by (simp add: checkChallengeProgress_def townInvariant_def)
      then show ?thesis by (rule findTeddy_inv [OF assms(1) act])
    next
      case 2
      then have act: "activeChallenge s = Some 1" using Some by simp
      have "lateForAppointment (speakerName ud) pos (challenges s ! 1) s = Inr s'"
        using assms(1,3) act ud by (simp add: checkChallengeProgress_def townInvariant_def)
      then show ?thesis by (rule lateForAppointment_inv [OF assms(1) act])
    next
      case 3
      then have act: "activeChallenge s = Some 2" using Some by simp
      have "christmasShopping (speakerName ud) pos (challenges s ! 2) s = Inr s'"
        using assms(1,3) act ud by (simp add: checkChallengeProgress_def townInvariant_def)
      then show ?thesis by (rule christmasShopping_inv [OF assms(1) act clerk])
    qed
  qed
qed

lemma startChallenge_inv:
  assumes "townInvariant s"
  shows "townInvariant (startChallenge cid s)"
proof (cases "findIndex (\<lambda>c. challengeId c = cid) (challenges s)")
  case None
  then show ?thesis using assms by (simp add: startChallenge_def)
next
  case (Some i)
  then have i: "i < 3" using findIndex_bound [OF Some] assms by (simp add: townInvariant_def)
  show ?thesis
  proof (cases "completed (challenges s ! i)")
    case True
    then show ?thesis using assms Some by (simp add: startChallenge_def)
  next
    case False
    show ?thesis
    proof (cases "activeChallenge s")
      case None
      then show ?thesis using assms Some False i
        by (simp add: startChallenge_def townInvariant_def)
    next
      case a: (Some a)
      then have "a < 3" using assms by (simp add: townInvariant_def)
      then consider "a = 0" | "a = 1" | "a = 2" by linarith
      then show ?thesis using assms Some False i a
        by cases
          (auto simp: startChallenge_def townInvariant_def resetSteps_def threeSteps_def Let_def)
    qed
  qed
qed

lemma applyEvent_inv:
  assumes "townInvariant s" and "fromTown e" and "applyEvent e s = Inr s'"
  shows "townInvariant s'"
proof (cases e)
  case (StartChallenge cid)
  then show ?thesis using assms(1,3) by (auto simp: startChallenge_inv)
next
  case (TalkTo npc pos)
  then have "checkChallengeProgress npc pos (showDialog npc s) = Inr s'"
    and "npc \<in> set townSpeakers"
    using assms(2,3) by simp_all
  then show ?thesis using assms(1)
    by (intro checkChallengeProgress_inv [of "showDialog npc s" npc pos s']) simp_all
next
  case HideDialog
  then show ?thesis using assms(1,3) by auto
qed

lemma run_inv:
  assumes "townInvariant s" and "list_all fromTown es" and "run es s = Inr s'"
  shows "townInvariant s'"
  using assms
proof (induction es arbitrary: s)
  case Nil
  then show ?case by simp
next
  case (Cons e es)
  then obtain s1 where e: "applyEvent e s = Inr s1" and r: "run es s1 = Inr s'"
    by (auto split: sum.splits)
  have "townInvariant s1" using Cons.prems(1,2) e by (auto intro: applyEvent_inv)
  then show ?case using Cons.IH [of s1] Cons.prems(2) r by simp
qed

lemma sceneChildren_no_bench: "\<not> list_ex isBench (sceneChildren rs others)"
  by (simp add: sceneChildren_def cityDistricts_def cityStores_def createArbourRoad_def
      createDepartmentStore_def createShopStreet_def createPark_def createStore_def
      plainAt_def list_ex_iff)

lemma newGame_inv: "townInvariant (newGame (sceneChildren rs others) rnd)"
  by (simp add: townInvariant_def newGame_def challengeCatalog_def catalog_selectors
      step_selectors threeSteps_def sceneChildren_no_bench)

lemma branch_if: "branch (Inr b) yes no = (if b then yes else no)"
  by (cases b) simp_all

lemma andAlso_if: "andAlso (Inr b) y = (if b then y else Inr False)"
  by (cases b) simp_all

lemma ucp_returns:
  assumes "townInvariant s" and "k < 3"
  shows "\<exists>s'. updateChallengeProgress k s = Inr s'"
proof (cases "activeChallenge s")
  case None
  then show ?thesis by (simp add: updateChallengeProgress_def)
next
  case (Some a)
  then have "a < 3" using assms(1) by (simp add: townInvariant_def)
  then consider "a = 0" | "a = 1" | "a = 2" by linarith
  then have "k < length (steps (challenges s ! a))"
    using assms by cases (simp_all add: townInvariant_def threeSteps_def)
  then show ?thesis using Some
    by (simp add: updateChallengeProgress_def stepDone_def Let_def split: bool.splits)
qed

lemma checkChallengeProgress_returns:
  assumes "townInvariant s"
  shows "\<exists>s'. checkChallengeProgress npc pos s = Inr s'"
proof (cases "activeChallenge s")
  case None
  then show ?thesis by (simp add: checkChallengeProgress_def)
next
  case (Some a)
  then have "a < 3" using assms(1) by (simp add: townInvariant_def)
  then consider "a = 0" | "a = 1" | "a = 2" by linarith
  then have len: "length (steps (challenges s ! a)) = 3"
    using assms by cases (simp_all add: townInvariant_def threeSteps_def)
  obtain u0 u1 u2 where u: "updateChallengeProgress 0 s = Inr u0"
    "updateChallengeProgress 1 s = Inr u1" "updateChallengeProgress 2 s = Inr u2"
    using ucp_returns [OF assms, of 0] ucp_returns [OF assms, of 1] ucp_returns [OF assms, of 2]
    by auto
  note u = u u [unfolded One_nat_def]
  show ?thesis
  proof (cases npc)
    case None
    then show ?thesis using Some by (simp add: checkChallengeProgress_def)
  next
    case ud: (Some ud)
    show ?thesis using Some ud len
      by (simp add: checkChallengeProgress_def findTeddy_def lateForAppointment_def
          christmasShopping_def stepDone_def branch_if andAlso_if u Let_def)
  qed
qed

lemma applyEvent_returns:
  assumes "townInvariant s"
  shows "\<exists>s'. applyEvent e s = Inr s'"
  using assms by (cases e) (simp_all add: checkChallengeProgress_returns)

lemma run_returns:
  assumes "townInvariant s" and "list_all fromTown es"
  shows "\<exists>s'. run es s = Inr s'"
  using assms
proof (induction es arbitrary: s)
  case Nil
  then show ?case by simp
next
  case (Cons e es)
  obtain s1 where e: "applyEvent e s = Inr s1"
    using applyEvent_returns [OF Cons.prems(1)] by blast
  have "townInvariant s1" using Cons.prems e by (auto intro: applyEvent_inv)
  then show ?case using Cons.IH [of s1] Cons.prems(2) e by simp
qed

lemma list3: "length xs = 3 \<Longrightarrow> xs = [xs ! 0, xs ! 1, xs ! 2]"
  by (cases xs; cases "tl xs"; cases "tl (tl xs)") auto

lemma lateRun_fromTown: "list_all fromTown lateRun"
  by (simp add: lateRun_def townSpeakers_def mainNPCConfigs_def)

text \<open>
  C10. In every state a session in the game's town can reach, "Find Teddy" and
  "Christmas Shopping" are not completed: the bench step of the first and the clerk
  step of the second never advance, since no child of the scene is a bench and no NPC
  is named "Store Clerk". "Late for Appointment" can be completed.
\<close>

theorem only_late_for_appointment_completes:
  assumes "list_all fromTown es"
    and "run es (newGame (sceneChildren rs others) rnd) = Inr s"
  shows "map challengeId (challenges s) = [1, 2, 3]
     \<and> \<not> stepCompleted (steps (challenges s ! 0) ! 1)
     \<and> \<not> completed (challenges s ! 0)
     \<and> \<not> stepCompleted (steps (challenges s ! 2) ! 2)
     \<and> \<not> completed (challenges s ! 2)
     \<and> (\<exists>es' s'. list_all fromTown es'
           \<and> run es' (newGame (sceneChildren rs others) rnd) = Inr s'
           \<and> completed (challenges s' ! 1))"
proof -
  have inv: "townInvariant s"
    using newGame_inv assms by (rule run_inv)
  then have "length (challenges s) = 3" by (simp add: townInvariant_def)
  then have "challenges s = [challenges s ! 0, challenges s ! 1, challenges s ! 2]"
    by (rule list3)
  then have "map challengeId (challenges s)
      = [challengeId (challenges s ! 0), challengeId (challenges s ! 1), challengeId (challenges s ! 2)]"
    by (metis list.simps(8,9))
  then have ids: "map challengeId (challenges s) = [1, 2, 3]"
    using inv by (simp add: townInvariant_def)
  obtain s' where r': "run lateRun (newGame (sceneChildren rs others) rnd) = Inr s'"
    and c': "challenges s' = lateDone"
    using lateRun_outcome [of "sceneChildren rs others" rnd] by (elim exE conjE)
  have "completed (challenges s' ! 1)"
    unfolding c' by (rule lateDone_1)
  with lateRun_fromTown r' have "list_all fromTown lateRun
           \<and> run lateRun (newGame (sceneChildren rs others) rnd) = Inr s'
           \<and> completed (challenges s' ! 1)"
    by (intro conjI)
  then have "\<exists>es' s'. list_all fromTown es'
           \<and> run es' (newGame (sceneChildren rs others) rnd) = Inr s'
           \<and> completed (challenges s' ! 1)"
    by blast
  then show ?thesis using ids inv by (simp add: townInvariant_def)
qed

theorem only_late_for_appointment_completes_witness:
  "list_all fromTown lateRun
   \<and> (\<exists>s. run lateRun (newGame (sceneChildren sampleTreeDraws []) (\<lambda>n. 0)) = Inr s
          \<and> \<not> completed (challenges s ! 0)
          \<and> completed (challenges s ! 1)
          \<and> \<not> completed (challenges s ! 2))"
proof -
  obtain s where r: "run lateRun (newGame (sceneChildren sampleTreeDraws []) (\<lambda>n. 0)) = Inr s"
    and c: "challenges s = lateDone"
    using lateRun_outcome [of "sceneChildren sampleTreeDraws []" "\<lambda>n. 0"] by (elim exE conjE)
  have c1: "completed (challenges s ! 1)"
    unfolding c by (rule lateDone_1)
  have c0: "\<not> completed (challenges s ! 0)" and c2: "\<not> completed (challenges s ! 2)"
    using only_late_for_appointment_completes [OF lateRun_fromTown r] by simp_all
  have "\<exists>s. run lateRun (newGame (sceneChildren sampleTreeDraws []) (\<lambda>n. 0)) = Inr s
          \<and> \<not> completed (challenges s ! 0)
          \<and> completed (challenges s ! 1)
          \<and> \<not> completed (challenges s ! 2)"
    by (rule exI [of _ s]) (intro conjI r c0 c1 c2)
  with lateRun_fromTown show ?thesis by (rule conjI)
qed

section \<open>The interaction freeze\<close>

lemmas town_defs = townStart_def interact_def elapse_def restore_def setSpeed_def
  currentSpeed_def freezeDuration_def mainWalker_def backgroundWalker_def Let_def

text \<open>A single interaction with a main character does freeze and restore it.\<close>

lemma single_interaction_restores:
  "userDataWalkSpeed (walkers (runTown [Interact 0, Elapse 29999] (townStart [mainWalker])) ! 0)
     = Some 0
   \<and> userDataWalkSpeed (walkers (runTown [Interact 0, Elapse 30000] (townStart [mainWalker])) ! 0)
     = Some 0.01"
  by (simp add: town_defs)

text \<open>
  C9. The handler saves the speed it finds and restores that after 30 seconds. A second
  interaction with the same NPC during the freeze saves the speed 0. When the first
  callback fires, 30 seconds after the first interaction, the NPC walks again although
  the second interaction's 30 seconds are not over; when the second fires, the speed is
  set to the saved 0 and nothing is left to restore it: the NPC stands still for good.
\<close>

theorem second_interaction_breaks_freeze:
  "userDataWalkSpeed
     (walkers (runTown [Interact 0, Elapse 10000, Interact 0, Elapse 20000]
        (townStart [mainWalker])) ! 0) = Some 0.01
   \<and> userDataWalkSpeed
     (walkers (runTown [Interact 0, Elapse 10000, Interact 0, Elapse 20000, Elapse 10000]
        (townStart [mainWalker])) ! 0) = Some 0
   \<and> pending (runTown [Interact 0, Elapse 10000, Interact 0, Elapse 20000, Elapse 10000]
        (townStart [mainWalker])) = []"
  by (simp add: town_defs)

text \<open>
  A background character is not frozen at all: the handler finds its (empty)
  \<open>userData\<close> and writes the speed there, while the character is moved by its own
  \<open>walkSpeed\<close> property.
\<close>

lemma background_character_not_frozen:
  "ownWalkSpeed (walkers (runTown [Interact 0] (townStart [backgroundWalker r])) ! 0)
     = Some (0.02 + r * 0.02)
   \<and> userDataWalkSpeed (walkers (runTown [Interact 0] (townStart [backgroundWalker r])) ! 0)
     = Some 0"
  by (simp add: town_defs)

end
